theory Spec2Isabelle
  imports Main "HOL-Library.Sublist" "HOL-Library.Char_ord" "HOL-Library.List_Lexorder"
begin

section \<open>Strings\<close>

text \<open>
  A JavaScript string is modelled as a \<^typ>\<open>string\<close>: one \<^typ>\<open>char\<close> per UTF-16 code
  unit, for the code units below 256. Strings holding larger code units are outside the model.
  \<^item> \<open>trim\<close> removes the white space and line terminators of that range
    (U+0009 to U+000D, U+0020, U+00A0) from both ends;
  \<^item> \<open>toUpperCase\<close> maps the letters a to z; no other code unit of the range upper-cases to
    one of the letters N, O, E, so the comparison with \<open>NONE\<close> in the router is exact;
  \<^item> \<open>indexOf\<close> returns \<open>None\<close> where JavaScript returns \<open>-1\<close>.
\<close>

definition is_space :: "char \<Rightarrow> bool" where
  "is_space c = (c = CHR 0x09 \<or> c = CHR 0x0A \<or> c = CHR 0x0B \<or> c = CHR 0x0C \<or> c = CHR 0x0D
                 \<or> c = CHR 0x20 \<or> c = CHR 0xA0)"

definition trim :: "string \<Rightarrow> string" where
  "trim s = rev (dropWhile is_space (rev (dropWhile is_space s)))"

fun startsWith :: "string \<Rightarrow> string \<Rightarrow> bool" where
  "startsWith s [] = True"
| "startsWith [] (p # ps) = False"
| "startsWith (c # cs) (p # ps) = (c = p \<and> startsWith cs ps)"

text \<open>\<open>search s p\<close> is the offset of the first occurrence of \<open>p\<close> in \<open>s\<close>.\<close>

fun search :: "string \<Rightarrow> string \<Rightarrow> nat option" where
  "search [] p = (if p = [] then Some 0 else None)"
| "search (c # cs) p =
     (if startsWith (c # cs) p then Some 0 else map_option Suc (search cs p))"

text \<open>\<open>s.indexOf(p, from)\<close>: the start position is clamped to the length of \<open>s\<close>.\<close>

definition indexOf :: "string \<Rightarrow> string \<Rightarrow> nat \<Rightarrow> nat option" where
  "indexOf s p from =
     map_option (\<lambda>k. k + min from (length s)) (search (drop from s) p)"

text \<open>\<open>s.substring(a, b)\<close> clamps both indices to the length and swaps them when \<open>a > b\<close>;
  \<open>s.substring(a)\<close> runs to the end.\<close>

definition substring :: "string \<Rightarrow> nat \<Rightarrow> nat \<Rightarrow> string" where
  "substring s a b =
     (let lo = min (min a b) (length s); hi = min (max a b) (length s)
      in take (hi - lo) (drop lo s))"

definition substring_from :: "string \<Rightarrow> nat \<Rightarrow> string" where
  "substring_from s a = drop a s"

definition is_lower :: "char \<Rightarrow> bool" where
  "is_lower c = (c \<in> set ''abcdefghijklmnopqrstuvwxyz'')"

definition upper_char :: "char \<Rightarrow> char" where
  "upper_char c =
     (case map_of (zip ''abcdefghijklmnopqrstuvwxyz'' ''ABCDEFGHIJKLMNOPQRSTUVWXYZ'') c of
        None \<Rightarrow> c
      | Some u \<Rightarrow> u)"

definition toUpperCase :: "string \<Rightarrow> string" where
  "toUpperCase s = map upper_char s"

text \<open>\<open>key.replace(/-([a-z])/g, (_, letter) => letter.toUpperCase())\<close>: every hyphen
  followed by a lower-case letter is replaced, scanning left to right, by the upper-case letter.\<close>

fun camelKey :: "string \<Rightarrow> string" where
  "camelKey (c # d # cs) =
     (if c = CHR ''-'' \<and> is_lower d then upper_char d # camelKey cs
      else c # camelKey (d # cs))"
| "camelKey cs = cs"

definition is_quote :: "char \<Rightarrow> bool" where
  "is_quote c = (c = CHR 0x22 \<or> c = CHR 0x27)"

text \<open>\<open>s.replace(/^["']|["']$/g, "")\<close>: scanning left to right, a quote character is
  deleted when it stands at position 0 (first alternative) or at the last position (second
  alternative). The flag is true at position 0 only.\<close>

fun replace_quotes :: "bool \<Rightarrow> string \<Rightarrow> string" where
  "replace_quotes at_start [] = []"
| "replace_quotes at_start (c # cs) =
     (if is_quote c \<and> (at_start \<or> cs = []) then replace_quotes False cs
      else c # replace_quotes False cs)"

text \<open>\<open>xs.join(sep)\<close> on an array of strings.\<close>

fun join :: "string \<Rightarrow> string list \<Rightarrow> string" where
  "join sep [] = []"
| "join sep [x] = x"
| "join sep (x # y # ys) = x @ sep @ join sep (y # ys)"

definition digit_char :: "nat \<Rightarrow> char" where
  "digit_char d = ''0123456789'' ! d"

text \<open>The decimal text of a natural number, as a template literal prints an array index or
  length.\<close>

function show_nat :: "nat \<Rightarrow> string" where
  "show_nat n = (if n < 10 then [digit_char n] else show_nat (n div 10) @ [digit_char (n mod 10)])"
  by pat_completeness auto
termination
  by (relation "measure (\<lambda>n. n)") auto

section \<open>Values\<close>

text \<open>
  A metadata value has one of the shapes the interface \<open>SkillFrontmatter\<close> declares
  (\<open>string | string[] | undefined\<close>) or is \<open>null\<close>, which the YAML parser returns for a key
  with no value. Numbers, booleans and nested mappings as metadata values are outside the model.
\<close>

datatype jsval = Undefined | Null | Str string | Strs "string list"

text \<open>What \<open>YAML.parse\<close> returns for a document: \<open>null\<close> (an empty document), a string
  scalar, a sequence, or a mapping, whose entries are listed in the enumeration order of the
  object's keys and have distinct keys.\<close>

datatype yaml_doc = DocNull | DocStr string | DocSeq "jsval list" | DocMap "(string \<times> jsval) list"

text \<open>What \<open>JSON.parse\<close> returns. A number is carried as the text \<open>JSON.stringify\<close>
  prints for it; the code never computes with one.\<close>

datatype json = JNull | JBool bool | JNum string | JString string
  | JArray "json list" | JObject "(string \<times> json) list"

text \<open>Reading a property: an absent key reads as \<open>undefined\<close>.\<close>

definition get_prop :: "(string \<times> jsval) list \<Rightarrow> string \<Rightarrow> jsval" where
  "get_prop kvs k = (case map_of kvs k of None \<Rightarrow> Undefined | Some v \<Rightarrow> v)"

text \<open>Writing a property: an existing key keeps its position, a new key goes last.\<close>

fun set_prop :: "(string \<times> 'v) list \<Rightarrow> string \<Rightarrow> 'v \<Rightarrow> (string \<times> 'v) list" where
  "set_prop [] k v = [(k, v)]"
| "set_prop ((k', v') # kvs) k v =
     (if k' = k then (k, v) # kvs else (k', v') # set_prop kvs k v)"

fun truthy :: "jsval \<Rightarrow> bool" where
  "truthy Undefined = False"
| "truthy Null = False"
| "truthy (Str s) = (s \<noteq> [])"
| "truthy (Strs xs) = True"

text \<open>The text a template literal prints for a value.\<close>

fun to_string :: "jsval \<Rightarrow> string" where
  "to_string Undefined = ''undefined''"
| "to_string Null = ''null''"
| "to_string (Str s) = s"
| "to_string (Strs xs) = join '','' xs"

definition hex_digit :: "nat \<Rightarrow> char" where
  "hex_digit d = ''0123456789abcdef'' ! d"

text \<open>\<open>JSON.stringify\<close> on a string: the quote, the backslash and the control characters
  are escaped.\<close>

definition json_escape :: "char \<Rightarrow> string" where
  "json_escape c =
     (if c = CHR 0x22 then [CHR 0x5C, CHR 0x22]
      else if c = CHR 0x5C then [CHR 0x5C, CHR 0x5C]
      else if c = CHR 0x08 then [CHR 0x5C, CHR ''b'']
      else if c = CHR 0x0C then [CHR 0x5C, CHR ''f'']
      else if c = CHR 0x0A then [CHR 0x5C, CHR ''n'']
      else if c = CHR 0x0D then [CHR 0x5C, CHR ''r'']
      else if c = CHR 0x09 then [CHR 0x5C, CHR ''t'']
      else if (of_char c :: nat) < 32
        then [CHR 0x5C, CHR ''u'', CHR ''0'', CHR ''0'',
              hex_digit ((of_char c :: nat) div 16), hex_digit ((of_char c :: nat) mod 16)]
      else [c])"

definition json_quote :: "string \<Rightarrow> string" where
  "json_quote s = [CHR 0x22] @ concat (map json_escape s) @ [CHR 0x22]"

fun json_stringify :: "json \<Rightarrow> string" where
  "json_stringify JNull = ''null''"
| "json_stringify (JBool b) = (if b then ''true'' else ''false'')"
| "json_stringify (JNum t) = t"
| "json_stringify (JString s) = json_quote s"
| "json_stringify (JArray xs) = ''['' @ join '','' (map json_stringify xs) @ '']''"
| "json_stringify (JObject kvs) =
     ''{'' @ join '','' (map (\<lambda>(k, v). json_quote k @ '':'' @ json_stringify v) kvs) @ ''}''"

text \<open>\<open>JSON.stringify\<close> applied to a metadata value; for \<open>undefined\<close> it returns
  \<open>undefined\<close>, which a template literal prints as such.\<close>

fun stringify_value :: "jsval \<Rightarrow> string" where
  "stringify_value Undefined = ''undefined''"
| "stringify_value Null = json_stringify JNull"
| "stringify_value (Str s) = json_stringify (JString s)"
| "stringify_value (Strs xs) = json_stringify (JArray (map JString xs))"

text \<open>\<open>v && v.length > 0\<close>.\<close>

fun nonempty_value :: "jsval \<Rightarrow> bool" where
  "nonempty_value Undefined = False"
| "nonempty_value Null = False"
| "nonempty_value (Str s) = (s \<noteq> [])"
| "nonempty_value (Strs xs) = (xs \<noteq> [])"

section \<open>The host\<close>

text \<open>
  The functions the program imports are parameters of the model:
  \<^item> \<open>yaml_parse\<close> is \<open>YAML.parse\<close>, \<open>json_parse\<close> is \<open>JSON.parse\<close>; \<open>None\<close> means the
    call throws;
  \<^item> \<open>ai_ask prompt model\<close> is \<open>AI.ask\<close> with creativity \<open>none\<close> and the model the
    preference names; \<open>None\<close> means the call throws;
  \<^item> \<open>home_dir\<close> is \<open>process.env.HOME || process.env.USERPROFILE || ""\<close>;
  \<^item> \<open>SKILLS_FOLDER_KEY\<close> is the constant of that name, imported from \<open>./types\<close>.
\<close>

record host =
  yaml_parse :: "string \<Rightarrow> yaml_doc option"
  json_parse :: "string \<Rightarrow> json option"
  ai_ask :: "string \<Rightarrow> string \<Rightarrow> string option"
  home_dir :: string
  SKILLS_FOLDER_KEY :: string

text \<open>A parser given by the finite table of its answers; it throws on every other text.\<close>

definition table_parser :: "(string \<times> 'a) list \<Rightarrow> string \<Rightarrow> 'a option" where
  "table_parser tbl s = map_of tbl s"

section \<open>The metadata codec\<close>

text \<open>
  The loop \<open>for (const key in metadata) camelCaseMetadata[camelKey] = metadata[key]\<close>.
  \<open>camelCaseMetadata\<close> is the object \<open>metadata\<close> itself, so each step reads the object as
  the earlier steps left it. The keys visited are those present when the loop starts. On
  \<open>null\<close> and on the empty string the loop has no iteration; on an array each step assigns an
  element to itself; on a non-empty string the first assignment throws a TypeError (the module
  is in strict mode), reported as \<open>None\<close>.
\<close>

definition camel_step :: "(string \<times> jsval) list \<Rightarrow> string \<Rightarrow> (string \<times> jsval) list" where
  "camel_step m key = set_prop m (camelKey key) (get_prop m key)"

fun camelCaseKeys :: "yaml_doc \<Rightarrow> yaml_doc option" where
  "camelCaseKeys DocNull = Some DocNull"
| "camelCaseKeys (DocStr s) = (if s = [] then Some (DocStr s) else None)"
| "camelCaseKeys (DocSeq xs) = Some (DocSeq xs)"
| "camelCaseKeys (DocMap kvs) = Some (DocMap (foldl camel_step kvs (map fst kvs)))"

definition parseSkillMarkdown :: "host \<Rightarrow> string \<Rightarrow> (yaml_doc \<times> string) option" where
  "parseSkillMarkdown h content =
     (if \<not> startsWith content ''---'' then None
      else case indexOf content ''---'' 3 of
        None \<Rightarrow> None
      | Some frontmatterEnd \<Rightarrow>
          (let frontmatterText = trim (substring content 3 frontmatterEnd);
               markdownContent = trim (substring_from content (frontmatterEnd + 3))
           in case yaml_parse h frontmatterText of
                None \<Rightarrow> None
              | Some metadata \<Rightarrow>
                  (case camelCaseKeys metadata of
                     None \<Rightarrow> None
                   | Some camelCaseMetadata \<Rightarrow> Some (camelCaseMetadata, markdownContent))))"

text \<open>The document \<open>createSkill\<close> writes (lines 251 to 264): \<open>frontmatter + content\<close>.\<close>

definition createSkill_frontmatter ::
  "string \<Rightarrow> string \<Rightarrow> string list option \<Rightarrow> string option \<Rightarrow> string" where
  "createSkill_frontmatter name description allowedTools model =
     ''---\<newline>name: '' @ name @ ''\<newline>description: '' @ description
     @ (case allowedTools of
          None \<Rightarrow> []
        | Some ts \<Rightarrow> if ts \<noteq> [] then ''\<newline>allowed-tools: '' @ json_stringify (JArray (map JString ts)) else [])
     @ (case model of
          None \<Rightarrow> []
        | Some m \<Rightarrow> if m \<noteq> [] then ''\<newline>model: '' @ m else [])
     @ ''\<newline>---\<newline>\<newline>''"

text \<open>The lines \<open>createSkill\<close> writes between the two delimiters, and the mapping they
  spell out.\<close>

definition metadata_lines ::
  "string \<Rightarrow> string \<Rightarrow> string list option \<Rightarrow> string option \<Rightarrow> string" where
  "metadata_lines name description allowedTools model =
     ''name: '' @ name @ ''\<newline>description: '' @ description
     @ (case allowedTools of
          None \<Rightarrow> []
        | Some ts \<Rightarrow> if ts \<noteq> [] then ''\<newline>allowed-tools: '' @ json_stringify (JArray (map JString ts)) else [])
     @ (case model of
          None \<Rightarrow> []
        | Some m \<Rightarrow> if m \<noteq> [] then ''\<newline>model: '' @ m else [])"

definition declared_metadata ::
  "string \<Rightarrow> string \<Rightarrow> string list option \<Rightarrow> string option \<Rightarrow> (string \<times> jsval) list" where
  "declared_metadata name description allowedTools model =
     [(''name'', Str name), (''description'', Str description)]
     @ (case allowedTools of
          None \<Rightarrow> []
        | Some ts \<Rightarrow> if ts \<noteq> [] then [(''allowed-tools'', Strs ts)] else [])
     @ (case model of
          None \<Rightarrow> []
        | Some m \<Rightarrow> if m \<noteq> [] then [(''model'', Str m)] else [])"

text \<open>The same mapping after the key loop of the parser: the tool list is also filed under
  the camel-case key.\<close>

definition parsed_metadata ::
  "string \<Rightarrow> string \<Rightarrow> string list option \<Rightarrow> string option \<Rightarrow> (string \<times> jsval) list" where
  "parsed_metadata name description allowedTools model =
     declared_metadata name description allowedTools model
     @ (case allowedTools of
          None \<Rightarrow> []
        | Some ts \<Rightarrow> if ts \<noteq> [] then [(''allowedTools'', Strs ts)] else [])"

section \<open>The file system\<close>

text \<open>
  The file system is a tree of directories and regular files. There are no symbolic links and
  no permissions, and names are compared exactly (a case-sensitive volume). The order in which
  a directory stores its entries is not observable: \<open>readdirSync\<close> returns them sorted by
  name, in the order of the character codes.

  A path that \<open>path.join\<close> returns is modelled by the list of components it denotes from the
  root, after the normalisation \<open>path.join\<close> applies to the text: empty components and \<open>.\<close>
  are dropped, \<open>..\<close> removes the last component. A relative path is read from the root. The
  string form of such a path is not kept. A path string that reaches the file system as it was
  stored is resolved by the file system itself, component by component (\<open>locate\<close>).
\<close>

datatype node = File string | Dir "(string \<times> node) list"

datatype exn = TypeError | ENOENT | ENOTDIR | EISDIR | EEXIST

type_synonym path = "string list"

fun split_on :: "char \<Rightarrow> string \<Rightarrow> string list" where
  "split_on sep [] = [[]]"
| "split_on sep (c # cs) =
     (if c = sep then [] # split_on sep cs
      else (case split_on sep cs of [] \<Rightarrow> [[c]] | w # ws \<Rightarrow> (c # w) # ws))"

definition path_step :: "path \<Rightarrow> string \<Rightarrow> path" where
  "path_step p c =
     (if c = [] \<or> c = ''.'' then p else if c = ''..'' then butlast p else p @ [c])"

definition resolve :: "string \<Rightarrow> path" where
  "resolve s = foldl path_step [] (split_on CHR ''/'' s)"

text \<open>\<open>path.join(p, s)\<close>, for a first argument that denotes \<open>p\<close>.\<close>

definition path_join :: "path \<Rightarrow> string \<Rightarrow> path" where
  "path_join p s = foldl path_step p (split_on CHR ''/'' s)"

fun lookup :: "node \<Rightarrow> path \<Rightarrow> node option" where
  "lookup n [] = Some n"
| "lookup n (c # cs) =
     (case n of
        File _ \<Rightarrow> None
      | Dir es \<Rightarrow> (case map_of es c of None \<Rightarrow> None | Some n' \<Rightarrow> lookup n' cs))"

definition existsSync :: "node \<Rightarrow> path \<Rightarrow> bool" where
  "existsSync root p = (lookup root p \<noteq> None)"

definition readFileSync :: "node \<Rightarrow> path \<Rightarrow> exn + string" where
  "readFileSync root p =
     (case lookup root p of
        None \<Rightarrow> Inl ENOENT
      | Some (File data) \<Rightarrow> Inr data
      | Some (Dir _) \<Rightarrow> Inl EISDIR)"

text \<open>The resolution of a path string by the file system: every component is looked up in
  turn. An empty component, \<open>.\<close> and \<open>..\<close> ask for the place reached so far to be a
  directory; \<open>..\<close> then leaves it for its parent. The result is the place reached, \<open>None\<close>
  when a step fails. \<open>fs.existsSync\<close> is false for the empty string.\<close>

fun walk :: "node \<Rightarrow> path \<Rightarrow> string list \<Rightarrow> path option" where
  "walk root cur [] = Some cur"
| "walk root cur (c # cs) =
     (if c = [] \<or> c = ''.'' \<or> c = ''..''
      then (case lookup root cur of
              Some (Dir _) \<Rightarrow> walk root (if c = ''..'' then butlast cur else cur) cs
            | _ \<Rightarrow> None)
      else (case lookup root (cur @ [c]) of
              None \<Rightarrow> None
            | Some _ \<Rightarrow> walk root (cur @ [c]) cs))"

definition locate :: "node \<Rightarrow> string \<Rightarrow> path option" where
  "locate root s = (if s = [] then None else walk root [] (split_on CHR ''/'' s))"

text \<open>\<open>readdirSync\<close>: the entries of a directory sorted by name, each with its node (which
  \<open>withFileTypes\<close> reports as a directory or not).\<close>

definition readdirSync :: "node \<Rightarrow> path \<Rightarrow> exn + (string \<times> node) list" where
  "readdirSync root p =
     (case lookup root p of
        None \<Rightarrow> Inl ENOENT
      | Some (File _) \<Rightarrow> Inl ENOTDIR
      | Some (Dir es) \<Rightarrow> Inr (sort_key fst es))"

fun isDirectory :: "node \<Rightarrow> bool" where
  "isDirectory (Dir _) = True"
| "isDirectory (File _) = False"

fun isFile :: "node \<Rightarrow> bool" where
  "isFile (File _) = True"
| "isFile (Dir _) = False"

text \<open>\<open>mkdirSync(p, {recursive: true})\<close>: every missing directory on the way is created;
  an existing directory is left as it is.\<close>

fun mkdirSync :: "node \<Rightarrow> path \<Rightarrow> exn + node" where
  "mkdirSync n [] = (case n of Dir _ \<Rightarrow> Inr n | File _ \<Rightarrow> Inl EEXIST)"
| "mkdirSync n (c # cs) =
     (case n of
        File _ \<Rightarrow> Inl ENOTDIR
      | Dir es \<Rightarrow>
          (case map_of es c of
             None \<Rightarrow>
               (case mkdirSync (Dir []) cs of
                  Inl e \<Rightarrow> Inl e
                | Inr n' \<Rightarrow> Inr (Dir (es @ [(c, n')])))
           | Some child \<Rightarrow>
               (case mkdirSync child cs of
                  Inl e \<Rightarrow> Inl e
                | Inr n' \<Rightarrow> Inr (Dir (set_prop es c n')))))"

text \<open>\<open>writeFileSync(p, data)\<close>: the file is created in its directory, or overwritten.\<close>

fun writeFileSync :: "node \<Rightarrow> path \<Rightarrow> string \<Rightarrow> exn + node" where
  "writeFileSync n [] data = (case n of File _ \<Rightarrow> Inr (File data) | Dir _ \<Rightarrow> Inl EISDIR)"
| "writeFileSync n (c # cs) data =
     (case n of
        File _ \<Rightarrow> Inl ENOTDIR
      | Dir es \<Rightarrow>
          (case map_of es c of
             None \<Rightarrow> if cs = [] then Inr (Dir (es @ [(c, File data)])) else Inl ENOENT
           | Some child \<Rightarrow>
               (case writeFileSync child cs data of
                  Inl e \<Rightarrow> Inl e
                | Inr n' \<Rightarrow> Inr (Dir (set_prop es c n')))))"

section \<open>The world\<close>

text \<open>The state the program reads and writes: the key/value store \<open>LocalStorage\<close>, whose
  values are strings, and the file system.\<close>

record world =
  local_storage :: "string \<Rightarrow> string option"
  files :: node

definition ENABLED_SKILLS_KEY :: string where
  "ENABLED_SKILLS_KEY = ''enabled_skills''"

definition ROUTING_MODEL_KEY :: string where
  "ROUTING_MODEL_KEY = ''routing_model''"

text \<open>The record \<open>ClaudeSkill\<close>. The metadata of a record is always a mapping.\<close>

record skill =
  name :: string
  path :: path
  metadata :: "(string \<times> jsval) list"
  content :: string
  supportingFiles :: "string list"
  skillMdPath :: path

section \<open>The skill repository\<close>

text \<open>\<open>getSkillsFolders\<close>. The default root is \<open>path.join(homeDir, ".claude", "skills")\<close>,
  written here as a string that denotes the same path.\<close>

definition default_folders :: "host \<Rightarrow> json list" where
  "default_folders h = [JObject [(''path'', JString (home_dir h @ ''/.claude/skills''))]]"

definition getSkillsFolders :: "host \<Rightarrow> world \<Rightarrow> json list" where
  "getSkillsFolders h w =
     (case local_storage w (SKILLS_FOLDER_KEY h) of
        None \<Rightarrow> default_folders h
      | Some storedPaths \<Rightarrow>
          if storedPaths = [] then default_folders h
          else (case json_parse h storedPaths of
                  None \<Rightarrow> [JObject [(''path'', JString storedPaths)]]
                | Some (JArray parsed) \<Rightarrow> parsed
                | Some _ \<Rightarrow> default_folders h))"

text \<open>\<open>f.path\<close> on one element of the folder list: reading a property of \<open>null\<close> throws,
  a value without that property gives \<open>undefined\<close> (\<open>None\<close>).\<close>

fun folder_path :: "json \<Rightarrow> exn + json option" where
  "folder_path JNull = Inl TypeError"
| "folder_path (JObject kvs) = Inr (map_of kvs ''path'')"
| "folder_path _ = Inr None"

fun map_exn :: "('a \<Rightarrow> exn + 'b) \<Rightarrow> 'a list \<Rightarrow> exn + 'b list" where
  "map_exn f [] = Inr []"
| "map_exn f (x # xs) =
     (case f x of
        Inl e \<Rightarrow> Inl e
      | Inr y \<Rightarrow> (case map_exn f xs of Inl e \<Rightarrow> Inl e | Inr ys \<Rightarrow> Inr (y # ys)))"

definition getSkillsFolderPaths :: "host \<Rightarrow> world \<Rightarrow> exn + json option list" where
  "getSkillsFolderPaths h w = map_exn folder_path (getSkillsFolders h w)"

fun truthy_json :: "json \<Rightarrow> bool" where
  "truthy_json JNull = False"
| "truthy_json (JBool b) = b"
| "truthy_json (JNum t) = (t \<noteq> ''0'')"
| "truthy_json (JString s) = (s \<noteq> [])"
| "truthy_json (JArray xs) = True"
| "truthy_json (JObject kvs) = True"

text \<open>\<open>getSkillsFolderPath\<close>: \<open>paths[0] || ""\<close>.\<close>

definition getSkillsFolderPath :: "host \<Rightarrow> world \<Rightarrow> exn + json" where
  "getSkillsFolderPath h w =
     (case getSkillsFolderPaths h w of
        Inl e \<Rightarrow> Inl e
      | Inr paths \<Rightarrow>
          Inr (case paths of
                 [] \<Rightarrow> JString []
               | None # _ \<Rightarrow> JString []
               | Some p # _ \<Rightarrow> if truthy_json p then p else JString []))"

text \<open>The supporting files: \<open>allFiles.filter((f) => f !== "SKILL.md" &&
  fs.statSync(path.join(skillPath, f)).isFile())\<close>; \<open>statSync\<close> throws on a path that does not
  exist.\<close>

fun supporting :: "node \<Rightarrow> path \<Rightarrow> string list \<Rightarrow> exn + string list" where
  "supporting root skillPath [] = Inr []"
| "supporting root skillPath (f # fs) =
     (if f = ''SKILL.md'' then supporting root skillPath fs
      else (case lookup root (path_join skillPath f) of
              None \<Rightarrow> Inl ENOENT
            | Some n \<Rightarrow>
                (case supporting root skillPath fs of
                   Inl e \<Rightarrow> Inl e
                 | Inr rest \<Rightarrow> Inr (if isFile n then f # rest else rest))))"

text \<open>One turn of the inner loop of \<open>getAllSkills\<close>: the records the entry adds (none when
  the loop continues), or the exception it throws. Reading \<open>.name\<close> of a \<open>null\<close> metadata
  throws a TypeError; a string or an array has no such property.\<close>

definition scan_entry :: "host \<Rightarrow> node \<Rightarrow> path \<Rightarrow> string \<times> node \<Rightarrow> exn + skill list" where
  "scan_entry h root skillsFolder entry =
     (if \<not> isDirectory (snd entry) then Inr []
      else
        let skillPath = path_join skillsFolder (fst entry);
            skillMdPath' = path_join skillPath ''SKILL.md''
        in if \<not> existsSync root skillMdPath' then Inr []
           else (case readFileSync root skillMdPath' of
                   Inl e \<Rightarrow> Inl e
                 | Inr doc \<Rightarrow>
                     (case parseSkillMarkdown h doc of
                        None \<Rightarrow> Inr []
                      | Some (DocNull, body) \<Rightarrow> Inl TypeError
                      | Some (DocStr s, body) \<Rightarrow> Inr []
                      | Some (DocSeq xs, body) \<Rightarrow> Inr []
                      | Some (DocMap kvs, body) \<Rightarrow>
                          if \<not> truthy (get_prop kvs ''name'') \<or> \<not> truthy (get_prop kvs ''description'')
                          then Inr []
                          else (case readdirSync root skillPath of
                                  Inl e \<Rightarrow> Inl e
                                | Inr allFiles \<Rightarrow>
                                    (case supporting root skillPath (map fst allFiles) of
                                       Inl e \<Rightarrow> Inl e
                                     | Inr supp \<Rightarrow>
                                         Inr [\<lparr>name = fst entry, path = skillPath, metadata = kvs,
                                               content = body, supportingFiles = supp,
                                               skillMdPath = skillMdPath'\<rparr>])))))"

fun scan_entries :: "host \<Rightarrow> node \<Rightarrow> path \<Rightarrow> (string \<times> node) list \<Rightarrow> exn + skill list" where
  "scan_entries h root skillsFolder [] = Inr []"
| "scan_entries h root skillsFolder (entry # entries) =
     (case scan_entry h root skillsFolder entry of
        Inl e \<Rightarrow> Inl e
      | Inr found \<Rightarrow>
          (case scan_entries h root skillsFolder entries of
             Inl e \<Rightarrow> Inl e
           | Inr rest \<Rightarrow> Inr (found @ rest)))"

text \<open>One turn of the outer loop. \<open>fs.existsSync\<close> and \<open>fs.readdirSync\<close> receive the folder
  as it is stored, and \<open>fs.existsSync\<close> is false for anything that is not a string; the path
  of a skill is \<open>path.join(skillsFolder, entry.name)\<close>.\<close>

fun scan_folder :: "host \<Rightarrow> node \<Rightarrow> json option \<Rightarrow> exn + skill list" where
  "scan_folder h root (Some (JString s)) =
     (case locate root s of
        None \<Rightarrow> Inr []
      | Some p \<Rightarrow>
          (case readdirSync root p of
             Inl e \<Rightarrow> Inl e
           | Inr entries \<Rightarrow> scan_entries h root (resolve s) entries))"
| "scan_folder h root _ = Inr []"

fun scan_folders :: "host \<Rightarrow> node \<Rightarrow> json option list \<Rightarrow> exn + skill list" where
  "scan_folders h root [] = Inr []"
| "scan_folders h root (f # fs) =
     (case scan_folder h root f of
        Inl e \<Rightarrow> Inl e
      | Inr found \<Rightarrow>
          (case scan_folders h root fs of
             Inl e \<Rightarrow> Inl e
           | Inr rest \<Rightarrow> Inr (found @ rest)))"

text \<open>\<open>getAllSkills\<close>: the body of the \<open>try\<close>, and the function with its \<open>catch\<close>.\<close>

definition getAllSkills_try :: "host \<Rightarrow> world \<Rightarrow> exn + skill list" where
  "getAllSkills_try h w =
     (case getSkillsFolderPaths h w of
        Inl e \<Rightarrow> Inl e
      | Inr skillsFolders \<Rightarrow> scan_folders h (files w) skillsFolders)"

definition getAllSkills :: "host \<Rightarrow> world \<Rightarrow> skill list" where
  "getAllSkills h w = (case getAllSkills_try h w of Inl e \<Rightarrow> [] | Inr skills \<Rightarrow> skills)"

text \<open>\<open>skills.find((s) => s.name === name || s.metadata.name === name) || null\<close>.\<close>

definition find_skill :: "skill list \<Rightarrow> string \<Rightarrow> skill option" where
  "find_skill skills ident =
     find (\<lambda>s. name s = ident \<or> get_prop (metadata s) ''name'' = Str ident) skills"

definition findSkill :: "host \<Rightarrow> world \<Rightarrow> string \<Rightarrow> skill option" where
  "findSkill h w ident = find_skill (getAllSkills h w) ident"

text \<open>\<open>createSkill\<close>. \<open>path.join\<close> throws a TypeError on a folder that is not a string.\<close>

definition createSkill ::
  "host \<Rightarrow> world \<Rightarrow> string \<Rightarrow> string \<Rightarrow> string \<Rightarrow> string list option \<Rightarrow> string option
     \<Rightarrow> string option \<Rightarrow> exn + world \<times> skill" where
  "createSkill h w name' description content' allowedTools model folderPath =
     (case (case folderPath of
              None \<Rightarrow> getSkillsFolderPath h w
            | Some f \<Rightarrow> if f \<noteq> [] then Inr (JString f) else getSkillsFolderPath h w) of
        Inl e \<Rightarrow> Inl e
      | Inr (JString skillsFolder) \<Rightarrow>
          (let skillPath = path_join (resolve skillsFolder) name';
               skillMdPath' = path_join skillPath ''SKILL.md''
           in case mkdirSync (files w) skillPath of
                Inl e \<Rightarrow> Inl e
              | Inr fs1 \<Rightarrow>
                  (case writeFileSync fs1 skillMdPath'
                          (createSkill_frontmatter name' description allowedTools model @ content') of
                     Inl e \<Rightarrow> Inl e
                   | Inr fs2 \<Rightarrow>
                       Inr (w\<lparr>files := fs2\<rparr>,
                            \<lparr>name = name', path = skillPath,
                             metadata =
                               [(''name'', Str name'), (''description'', Str description),
                                (''allowedTools'', case allowedTools of None \<Rightarrow> Undefined | Some ts \<Rightarrow> Strs ts),
                                (''model'', case model of None \<Rightarrow> Undefined | Some m \<Rightarrow> Str m)],
                             content = content', supportingFiles = [],
                             skillMdPath = skillMdPath'\<rparr>)))
      | Inr _ \<Rightarrow> Inl TypeError)"

text \<open>\<open>updateSkill\<close>. The argument \<open>updates\<close> is an object, given by its own properties in
  order; a property may be present with the value \<open>undefined\<close>. The spread
  \<open>{...skill.metadata, ...updates}\<close> copies every own property of \<open>updates\<close> over the
  metadata.\<close>

definition spread :: "(string \<times> jsval) list \<Rightarrow> (string \<times> jsval) list \<Rightarrow> (string \<times> jsval) list" where
  "spread base updates = foldl (\<lambda>m kv. set_prop m (fst kv) (snd kv)) base updates"

definition updateSkill_frontmatter :: "(string \<times> jsval) list \<Rightarrow> string" where
  "updateSkill_frontmatter md =
     ''---\<newline>name: '' @ to_string (get_prop md ''name'')
     @ ''\<newline>description: '' @ to_string (get_prop md ''description'')
     @ (if nonempty_value (get_prop md ''allowedTools'')
        then ''\<newline>allowed-tools: '' @ stringify_value (get_prop md ''allowedTools'') else [])
     @ (if truthy (get_prop md ''model'')
        then ''\<newline>model: '' @ to_string (get_prop md ''model'') else [])
     @ ''\<newline>---\<newline>\<newline>''"

text \<open>\<open>updates.content ?? parsed.content\<close>.\<close>

definition newContent :: "(string \<times> jsval) list \<Rightarrow> string \<Rightarrow> string" where
  "newContent updates body =
     (case get_prop updates ''content'' of
        Undefined \<Rightarrow> body
      | Null \<Rightarrow> body
      | v \<Rightarrow> to_string v)"

definition updateSkill ::
  "host \<Rightarrow> world \<Rightarrow> string \<Rightarrow> (string \<times> jsval) list \<Rightarrow> exn + world \<times> skill option" where
  "updateSkill h w ident updates =
     (case findSkill h w ident of
        None \<Rightarrow> Inr (w, None)
      | Some sk \<Rightarrow>
          (case readFileSync (files w) (skillMdPath sk) of
             Inl e \<Rightarrow> Inl e
           | Inr currentContent \<Rightarrow>
               (case parseSkillMarkdown h currentContent of
                  None \<Rightarrow> Inr (w, None)
                | Some parsed \<Rightarrow>
                    (let md = spread (metadata sk) updates;
                         body = newContent updates (snd parsed)
                     in case writeFileSync (files w) (skillMdPath sk)
                               (updateSkill_frontmatter md @ body) of
                          Inl e \<Rightarrow> Inl e
                        | Inr fs' \<Rightarrow>
                            Inr (w\<lparr>files := fs'\<rparr>, Some (sk\<lparr>metadata := md, content := body\<rparr>))))))"

section \<open>The enablement store\<close>

definition getEnabledSkills :: "host \<Rightarrow> world \<Rightarrow> json" where
  "getEnabledSkills h w =
     (case local_storage w ENABLED_SKILLS_KEY of
        None \<Rightarrow> JArray []
      | Some enabled \<Rightarrow>
          if enabled = [] then JArray []
          else (case json_parse h enabled of None \<Rightarrow> JArray [] | Some v \<Rightarrow> v))"

text \<open>\<open>enabled.includes(skillName)\<close>: membership in an array, containment in a string, a
  TypeError on any other value.\<close>

fun js_includes :: "json \<Rightarrow> string \<Rightarrow> exn + bool" where
  "js_includes (JArray xs) skillName = Inr (JString skillName \<in> set xs)"
| "js_includes (JString s) skillName = Inr (search s skillName \<noteq> None)"
| "js_includes _ skillName = Inl TypeError"

definition isSkillEnabled :: "host \<Rightarrow> world \<Rightarrow> string \<Rightarrow> exn + bool" where
  "isSkillEnabled h w skillName = js_includes (getEnabledSkills h w) skillName"

definition setItem :: "world \<Rightarrow> string \<Rightarrow> string \<Rightarrow> world" where
  "setItem w key v = w\<lparr>local_storage := (local_storage w)(key \<mapsto> v)\<rparr>"

text \<open>\<open>enableSkill\<close>, \<open>disableSkill\<close>: \<open>push\<close> and \<open>filter\<close> exist on arrays only.\<close>

definition enableSkill :: "host \<Rightarrow> world \<Rightarrow> string \<Rightarrow> exn + world" where
  "enableSkill h w skillName =
     (case js_includes (getEnabledSkills h w) skillName of
        Inl e \<Rightarrow> Inl e
      | Inr True \<Rightarrow> Inr w
      | Inr False \<Rightarrow>
          (case getEnabledSkills h w of
             JArray enabled \<Rightarrow>
               Inr (setItem w ENABLED_SKILLS_KEY (json_stringify (JArray (enabled @ [JString skillName]))))
           | _ \<Rightarrow> Inl TypeError))"

definition disableSkill :: "host \<Rightarrow> world \<Rightarrow> string \<Rightarrow> exn + world" where
  "disableSkill h w skillName =
     (case getEnabledSkills h w of
        JArray enabled \<Rightarrow>
          Inr (setItem w ENABLED_SKILLS_KEY
                 (json_stringify (JArray (filter (\<lambda>n. n \<noteq> JString skillName) enabled))))
      | _ \<Rightarrow> Inl TypeError)"

text \<open>\<open>getEnabledSkillObjects\<close>: \<open>allSkills.filter((skill) => enabledNames.includes(skill.name))\<close>.\<close>

definition getEnabledSkillObjects :: "host \<Rightarrow> world \<Rightarrow> exn + skill list" where
  "getEnabledSkillObjects h w =
     (case map_exn (\<lambda>sk. js_includes (getEnabledSkills h w) (name sk)) (getAllSkills h w) of
        Inl e \<Rightarrow> Inl e
      | Inr keep \<Rightarrow> Inr (map fst (filter snd (zip (getAllSkills h w) keep))))"

text \<open>\<open>getRoutingModel\<close>: \<open>saved || null\<close>.\<close>

definition getRoutingModel :: "world \<Rightarrow> string option" where
  "getRoutingModel w =
     (case local_storage w ROUTING_MODEL_KEY of
        None \<Rightarrow> None
      | Some saved \<Rightarrow> if saved = [] then None else Some saved)"

section \<open>The router\<close>

text \<open>The text returned when no routing model is configured.\<close>

definition setup_guidance :: string where
  \<open>setup_guidance =
     ''# Setup Required\<newline>''
     @ ''\<newline>''
     @ ''Before using AI Skills, you need to configure your routing model preference.\<newline>''
     @ ''\<newline>''
     @ ''## What is a Routing Model?\<newline>''
     @ ''\<newline>''
     @ ''The routing model is a fast AI model that intelligently selects which skill to use based on your request.\<newline>''
     @ ''\<newline>''
     @ ''## How to Setup\<newline>''
     @ ''\<newline>''
     @ ''1. Open "Manage Skills" command in Raycast\<newline>''
     @ ''2. Click "Setup Preferences" (gear icon)\<newline>''
     @ ''3. Select your preferred routing model (we recommend **Gemini 2.5 Flash Lite**)\<newline>''
     @ ''4. The selection is saved automatically\<newline>''
     @ ''\<newline>''
     @ ''Once configured, you can use AI Skills to help with various tasks!''\<close>

text \<open>The text returned when no skill is enabled.\<close>

definition no_skills_guidance :: string where
  \<open>no_skills_guidance =
     ''No AI Skills are currently enabled.\<newline>''
     @ ''\<newline>''
     @ ''To enable skills:\<newline>''
     @ ''1. Open "Manage Skills" command\<newline>''
     @ ''2. Use Cmd+T to toggle skills on/off\<newline>''
     @ ''3. Once enabled, skills will be available here\<newline>''
     @ ''\<newline>''
     @ ''Skills must be enabled before they can be used by the AI.''\<close>

text \<open>One line pair of the skill list of the prompt; \<open>index\<close> counts from 0.\<close>

definition prompt_item :: "nat \<times> skill \<Rightarrow> string" where
  \<open>prompt_item p =
     show_nat (fst p + 1)
     @ ''. Name: ''
     @ to_string (get_prop (metadata (snd p)) ''name'')
     @ ''\<newline>''
     @ ''   Description: ''
     @ to_string (get_prop (metadata (snd p)) ''description'')\<close>

definition build_prompt :: "skill list \<Rightarrow> string \<Rightarrow> string" where
  \<open>build_prompt skills request =
     ''You are an intelligent skill router. Your task is to match the user's request to the MOST appropriate skill from the available list.\<newline>''
     @ ''\<newline>''
     @ ''User Request: "''
     @ request
     @ ''"\<newline>''
     @ ''\<newline>''
     @ ''Available Skills:\<newline>''
     @ join ''\<newline>'' (map prompt_item (enumerate 0 skills))
     @ ''\<newline>''
     @ ''\<newline>''
     @ ''SELECTION CRITERIA:\<newline>''
     @ ''1. Choose the skill whose PURPOSE best aligns with what the user wants to accomplish\<newline>''
     @ ''2. Look for KEYWORDS in the request that match the skill's description\<newline>''
     @ ''3. If multiple skills seem relevant, pick the one that is MOST SPECIFIC to the user's intent\<newline>''
     @ ''4. Only return "NONE" if the request doesn't meaningfully relate to ANY skill\<newline>''
     @ ''\<newline>''
     @ ''OUTPUT FORMAT:\<newline>''
     @ ''- Respond with ONLY the skill name (e.g., "code-reviewer", "summarizer")\<newline>''
     @ ''- If no skill matches, respond with exactly "NONE"\<newline>''
     @ ''- No explanations, no quotes, no extra text\<newline>''
     @ ''\<newline>''
     @ ''Selected skill name:''\<close>

definition formatSkillResponse :: "skill \<Rightarrow> string" where
  \<open>formatSkillResponse sk =
     ''# Using Skill: ''
     @ to_string (get_prop (metadata sk) ''name'')
     @ ''\<newline>''
     @ ''\<newline>''
     @ ''**Purpose:** ''
     @ to_string (get_prop (metadata sk) ''description'')
     @ ''\<newline>''
     @ ''\<newline>''
     @ ''---\<newline>''
     @ ''\<newline>''
     @ ''## YOUR TASK\<newline>''
     @ ''\<newline>''
     @ ''You have been selected to help with this request because this skill matches what the user needs. Follow these steps:\<newline>''
     @ ''\<newline>''
     @ ''1. **READ and UNDERSTAND** the skill instructions below\<newline>''
     @ ''2. **APPLY** the instructions directly to address the user's request\<newline>''
     @ ''3. **RESPOND** helpfully, following any specific guidance in the skill\<newline>''
     @ ''4. **STAY WITHIN SCOPE** - Focus on what this skill is designed to do\<newline>''
     @ ''\<newline>''
     @ ''---\<newline>''
     @ ''\<newline>''
     @ ''## Skill Instructions\<newline>''
     @ ''\<newline>''
     @ content sk
     @ ''\<newline>''
     @ ''\<newline>''
     @ ''---\<newline>''
     @ ''\<newline>''
     @ ''**Remember:** These instructions are your guide. Use them to provide the best possible response to the user's request.''\<close>

definition no_match_item :: "nat \<times> skill \<Rightarrow> string" where
  \<open>no_match_item p =
     show_nat (fst p + 1)
     @ ''. **''
     @ to_string (get_prop (metadata (snd p)) ''name'')
     @ ''** - ''
     @ to_string (get_prop (metadata (snd p)) ''description'')\<close>

definition formatNoMatchMessage :: "skill list \<Rightarrow> string" where
  \<open>formatNoMatchMessage skills =
     ''# No Suitable Skill Found\<newline>''
     @ ''\<newline>''
     @ ''The user's request doesn't clearly match any of your available AI Skills.\<newline>''
     @ ''\<newline>''
     @ ''## WHAT YOU SHOULD DO\<newline>''
     @ ''\<newline>''
     @ ''**Respond to the user directly using your general capabilities.** Don't try to force a skill match.\<newline>''
     @ ''\<newline>''
     @ ''Help the user with their request to the best of your ability. If you need clarification about what they want, ask them.\<newline>''
     @ ''\<newline>''
     @ ''---\<newline>''
     @ ''\<newline>''
     @ ''## Available Skills (''
     @ show_nat (length skills)
     @ '')\<newline>''
     @ ''\<newline>''
     @ ''For your reference, here are the skills that are currently enabled:\<newline>''
     @ ''\<newline>''
     @ join ''\<newline>'' (map no_match_item (enumerate 0 skills))
     @ ''\<newline>''
     @ ''\<newline>''
     @ ''---\<newline>''
     @ ''\<newline>''
     @ ''## TIPS\<newline>''
     @ ''\<newline>''
     @ ''- If the user mentions a specific skill name by name, let them know it's not available\<newline>''
     @ ''- If you think a skill MIGHT be relevant but you're not sure, you can ask: "Would you like me to use the [skill-name] skill for this?"\<newline>''
     @ ''- The user can enable more skills or create new ones through the "Manage Skills" command''\<close>

text \<open>\<open>selectSkillWithAI\<close> returns the selected name, or \<open>None\<close> for \<open>null\<close>, together with
  the classification calls it made, each as the prompt and the model asked.\<close>

definition selectSkillWithAI ::
  "host \<Rightarrow> skill list \<Rightarrow> string \<Rightarrow> string \<Rightarrow> string option \<times> (string \<times> string) list" where
  "selectSkillWithAI h skills request routingModel =
     (let prompt = build_prompt skills request
      in (case ai_ask h prompt routingModel of
            None \<Rightarrow> None
          | Some response \<Rightarrow>
              (let trimmedResponse = replace_quotes True (trim response)
               in if toUpperCase trimmedResponse = ''NONE'' then None else Some trimmedResponse),
          [(prompt, routingModel)]))"

text \<open>The tool: the text it returns or the exception that escapes it, and the classification
  calls made.\<close>

definition tool :: "host \<Rightarrow> world \<Rightarrow> string \<Rightarrow> (exn + string) \<times> (string \<times> string) list" where
  "tool h w request =
     (case getRoutingModel w of
        None \<Rightarrow> (Inr setup_guidance, [])
      | Some routingModel \<Rightarrow>
          (case getEnabledSkillObjects h w of
             Inl e \<Rightarrow> (Inl e, [])
           | Inr enabledSkills \<Rightarrow>
               if enabledSkills = [] then (Inr no_skills_guidance, [])
               else
                 (case selectSkillWithAI h enabledSkills request routingModel of
                    (None, calls) \<Rightarrow> (Inr (formatNoMatchMessage enabledSkills), calls)
                  | (Some selectedSkillName, calls) \<Rightarrow>
                      if selectedSkillName = []
                      then (Inr (formatNoMatchMessage enabledSkills), calls)
                      else (case find (\<lambda>s. name s = selectedSkillName
                                         \<or> get_prop (metadata s) ''name'' = Str selectedSkillName)
                                   enabledSkills of
                              Some selectedSkill \<Rightarrow> (Inr (formatSkillResponse selectedSkill), calls)
                            | None \<Rightarrow> (Inr (formatNoMatchMessage enabledSkills), calls)))))"

section \<open>Notions of the specification\<close>

text \<open>The normalisation of the classification response in the words of the specification:
  one quote character is removed from the front, if there is one, and one from the back, if
  there is one.\<close>

definition strip_quotes :: "string \<Rightarrow> string" where
  "strip_quotes s =
     (let s1 = (if s \<noteq> [] \<and> is_quote (hd s) then tl s else s)
      in if s1 \<noteq> [] \<and> is_quote (last s1) then butlast s1 else s1)"

text \<open>A record is loaded from the file system when the document at its \<open>skillMdPath\<close>
  parses to its metadata and body, and the declared name and description are truthy.\<close>

definition loaded_from :: "host \<Rightarrow> node \<Rightarrow> skill \<Rightarrow> bool" where
  "loaded_from h root s =
     ((\<exists>doc. readFileSync root (skillMdPath s) = Inr doc
          \<and> parseSkillMarkdown h doc = Some (DocMap (metadata s), content s))
      \<and> truthy (get_prop (metadata s) ''name'')
      \<and> truthy (get_prop (metadata s) ''description''))"

text \<open>The value of the field \<open>k\<close> after the merge of \<open>updateSkill\<close>, in the words of the
  specification: the value the update provides (the last one, if it names the key twice), the
  current value when the update does not have the key.\<close>

definition pick :: "(string \<times> jsval) list \<Rightarrow> (string \<times> jsval) list \<Rightarrow> string \<Rightarrow> jsval" where
  "pick current updates k =
     (case map_of (rev updates) k of None \<Rightarrow> get_prop current k | Some v \<Rightarrow> v)"

text \<open>The document at \<open>p\<close> after an operation, \<open>None\<close> when the operation threw or no file
  can be read there.\<close>

definition document_after :: "exn + world \<times> 'a \<Rightarrow> path \<Rightarrow> string option" where
  "document_after r p =
     (case r of
        Inl e \<Rightarrow> None
      | Inr res \<Rightarrow> (case readFileSync (files (fst res)) p of Inl e \<Rightarrow> None | Inr d \<Rightarrow> Some d))"

text \<open>Two calls of \<open>createSkill\<close> with the same name on the default root, then \<open>findSkill\<close>
  for the name: the directory name, description and body of the record found. \<open>None\<close> when a
  call throws or nothing is found.\<close>

definition create_twice_then_find ::
  "host \<Rightarrow> world \<Rightarrow> string \<Rightarrow> string \<Rightarrow> string \<Rightarrow> string \<Rightarrow> string \<Rightarrow> (string \<times> jsval \<times> string) option" where
  "create_twice_then_find h w n d1 c1 d2 c2 =
     (case createSkill h w n d1 c1 None None None of
        Inl e \<Rightarrow> None
      | Inr r1 \<Rightarrow>
          (case createSkill h (fst r1) n d2 c2 None None None of
             Inl e \<Rightarrow> None
           | Inr r2 \<Rightarrow>
               map_option (\<lambda>sk. (name sk, get_prop (metadata sk) ''description'', content sk))
                 (findSkill h (fst r2) n)))"

text \<open>A plain directory name: not empty, not \<open>.\<close> or \<open>..\<close>, without a separator.\<close>

definition plain_name :: "string \<Rightarrow> bool" where
  "plain_name n = (n \<noteq> [] \<and> n \<noteq> ''.'' \<and> n \<noteq> ''..'' \<and> CHR ''/'' \<notin> set n)"

text \<open>The folder \<open>createSkill\<close> works in: \<open>folderPath || (await getSkillsFolderPath())\<close>.\<close>

definition chosen_folder :: "host \<Rightarrow> world \<Rightarrow> string option \<Rightarrow> exn + json" where
  "chosen_folder h w folderPath =
     (case folderPath of
        None \<Rightarrow> getSkillsFolderPath h w
      | Some f \<Rightarrow> if f \<noteq> [] then Inr (JString f) else getSkillsFolderPath h w)"

text \<open>The skills discovered before the one whose document lies at \<open>p\<close>.\<close>

definition discovered_before :: "path \<Rightarrow> skill list \<Rightarrow> skill list" where
  "discovered_before p skills = takeWhile (\<lambda>sk. skillMdPath sk \<noteq> p) skills"

section \<open>Hosts and worlds of the examples\<close>

text \<open>A host whose two parsers are given by tables and whose classification call is
  \<open>ai\<close>.\<close>

definition table_host ::
  "(string \<times> yaml_doc) list \<Rightarrow> (string \<times> json) list \<Rightarrow> (string \<Rightarrow> string \<Rightarrow> string option) \<Rightarrow> host" where
  "table_host ytbl jtbl ai =
     \<lparr>yaml_parse = table_parser ytbl, json_parse = table_parser jtbl, ai_ask = ai,
      home_dir = ''/home/u'', SKILLS_FOLDER_KEY = ''skills_folder''\<rparr>"

definition no_ai :: "string \<Rightarrow> string \<Rightarrow> string option" where
  "no_ai prompt model = None"

text \<open>The parser reads the two lines \<open>name: a\<close>, \<open>description: d\<close> as that mapping.\<close>

definition roundtrip_host :: host where
  "roundtrip_host = table_host
     [(''name: a\<newline>description: d'', DocMap [(''name'', Str ''a''), (''description'', Str ''d'')])]
     [] no_ai"

text \<open>The parser reads the four lines written for a skill with a tool list and a model as
  that mapping.\<close>

definition full_host :: host where
  \<open>full_host = table_host
     [(''name: a\<newline>description: d\<newline>allowed-tools: ["Read"]\<newline>model: fast'',
       DocMap [(''name'', Str ''a''), (''description'', Str ''d''),
               (''allowed-tools'', Strs [''Read'']), (''model'', Str ''fast'')])]
     [] no_ai\<close>

text \<open>Two discovered skills: the directory \<open>a\<close> declares the name \<open>x\<close>, the directory \<open>x\<close>
  declares the name \<open>y\<close>.\<close>

definition skill_a :: skill where
  "skill_a = \<lparr>name = ''a'', path = [''r'', ''a''],
     metadata = [(''name'', Str ''x''), (''description'', Str ''first'')],
     content = ''A'', supportingFiles = [], skillMdPath = [''r'', ''a'', ''SKILL.md'']\<rparr>"

definition skill_x :: skill where
  "skill_x = \<lparr>name = ''x'', path = [''r'', ''x''],
     metadata = [(''name'', Str ''y''), (''description'', Str ''second'')],
     content = ''X'', supportingFiles = [], skillMdPath = [''r'', ''x'', ''SKILL.md'']\<rparr>"

text \<open>A store that holds the enabled names \<open>a\<close>, \<open>b\<close>, \<open>a\<close>, and a host whose JSON parser
  reads that text and the text of the list \<open>b\<close>.\<close>

definition enabled_host :: host where
  \<open>enabled_host = table_host []
     [(''["a","b","a"]'', JArray [JString ''a'', JString ''b'', JString ''a'']),
      (''["b"]'', JArray [JString ''b''])]
     no_ai\<close>

definition enabled_world :: world where
  \<open>enabled_world =
     \<lparr>local_storage = [ENABLED_SKILLS_KEY \<mapsto> ''["a","b","a"]''], files = Dir []\<rparr>\<close>

text \<open>A world with nothing stored.\<close>

definition empty_world :: world where
  "empty_world = \<lparr>local_storage = Map.empty, files = Dir []\<rparr>"

text \<open>The example of the specification: one enabled skill, \<open>summarizer\<close>, under the default
  root, and a routing model configured. The classification call of the host is a parameter.\<close>

definition summarizer_document :: string where
  "summarizer_document =
     ''---\<newline>name: summarizer\<newline>description: Summarizes text\<newline>---\<newline>\<newline>Shorten the text.''"

definition summarizer :: skill where
  "summarizer =
     \<lparr>name = ''summarizer'', path = [''home'', ''u'', ''.claude'', ''skills'', ''summarizer''],
      metadata = [(''name'', Str ''summarizer''), (''description'', Str ''Summarizes text'')],
      content = ''Shorten the text.'', supportingFiles = [],
      skillMdPath = [''home'', ''u'', ''.claude'', ''skills'', ''summarizer'', ''SKILL.md'']\<rparr>"

definition router_host :: "(string \<Rightarrow> string \<Rightarrow> string option) \<Rightarrow> host" where
  \<open>router_host ai = table_host
     [(''name: summarizer\<newline>description: Summarizes text'',
       DocMap [(''name'', Str ''summarizer''), (''description'', Str ''Summarizes text'')])]
     [(''["summarizer"]'', JArray [JString ''summarizer''])]
     ai\<close>

definition router_world :: world where
  \<open>router_world =
     \<lparr>local_storage = [ENABLED_SKILLS_KEY \<mapsto> ''["summarizer"]'', ROUTING_MODEL_KEY \<mapsto> ''Gemini_2_5_Flash_Lite''],
      files = Dir [(''home'', Dir [(''u'', Dir [(''.claude'', Dir [(''skills'',
                Dir [(''summarizer'', Dir [(''SKILL.md'', File summarizer_document)])])])])])]\<rparr>\<close>

text \<open>A classification call that answers every prompt with the same text.\<close>

definition answer :: "string \<Rightarrow> string \<Rightarrow> string \<Rightarrow> string option" where
  "answer response prompt model = Some response"

text \<open>The default root with two skill directories. In both worlds the directory \<open>a\<close> holds a
  valid document. The directory \<open>b\<close> holds a document without a description in the first
  world, and a document with an empty metadata block in the second. The parser reads the empty
  text as \<open>null\<close>.\<close>

definition listing_host :: host where
  "listing_host = table_host
     [(''name: a\<newline>description: desc'', DocMap [(''name'', Str ''a''), (''description'', Str ''desc'')]),
      (''name: b'', DocMap [(''name'', Str ''b'')]),
      ([], DocNull)]
     [] no_ai"

definition skills_root :: "(string \<times> node) list \<Rightarrow> node" where
  "skills_root entries =
     Dir [(''home'', Dir [(''u'', Dir [(''.claude'', Dir [(''skills'', Dir entries)])])])]"

definition valid_a :: "string \<times> node" where
  "valid_a = (''a'', Dir [(''SKILL.md'', File ''---\<newline>name: a\<newline>description: desc\<newline>---\<newline>\<newline>body'')])"

definition no_description_world :: world where
  "no_description_world =
     \<lparr>local_storage = Map.empty,
      files = skills_root [valid_a, (''b'', Dir [(''SKILL.md'', File ''---\<newline>name: b\<newline>---\<newline>'')])]\<rparr>"

definition empty_block_world :: world where
  "empty_block_world =
     \<lparr>local_storage = Map.empty,
      files = skills_root [valid_a, (''b'', Dir [(''SKILL.md'', File ''---\<newline>---\<newline>'')])]\<rparr>"

definition record_a :: skill where
  "record_a =
     \<lparr>name = ''a'', path = [''home'', ''u'', ''.claude'', ''skills'', ''a''],
      metadata = [(''name'', Str ''a''), (''description'', Str ''desc'')],
      content = ''body'', supportingFiles = [],
      skillMdPath = [''home'', ''u'', ''.claude'', ''skills'', ''a'', ''SKILL.md'']\<rparr>"

text \<open>A skill whose document carries the additional key \<open>license\<close>.\<close>

definition licensed_host :: host where
  "licensed_host = table_host
     [(''name: a\<newline>description: old\<newline>license: MIT'',
       DocMap [(''name'', Str ''a''), (''description'', Str ''old''), (''license'', Str ''MIT'')])]
     [] no_ai"

definition licensed_world :: world where
  "licensed_world =
     \<lparr>local_storage = Map.empty,
      files = skills_root [(''a'', Dir [(''SKILL.md'',
                File ''---\<newline>name: a\<newline>description: old\<newline>license: MIT\<newline>---\<newline>\<newline>body'')])]\<rparr>"

definition licensed_record :: skill where
  "licensed_record =
     \<lparr>name = ''a'', path = [''home'', ''u'', ''.claude'', ''skills'', ''a''],
      metadata = [(''name'', Str ''a''), (''description'', Str ''old''), (''license'', Str ''MIT'')],
      content = ''body'', supportingFiles = [],
      skillMdPath = [''home'', ''u'', ''.claude'', ''skills'', ''a'', ''SKILL.md'']\<rparr>"

text \<open>Creating the skill \<open>x\<close>: the parser reads the lines of the documents involved. In the
  second world the root already holds the directory \<open>a\<close>, whose document declares the name
  \<open>x\<close>.\<close>

definition create_host :: host where
  "create_host = table_host
     [(''name: x\<newline>description: d'', DocMap [(''name'', Str ''x''), (''description'', Str ''d'')]),
      (''name: x\<newline>description: d2'', DocMap [(''name'', Str ''x''), (''description'', Str ''d2'')]),
      (''name: x\<newline>description: first'', DocMap [(''name'', Str ''x''), (''description'', Str ''first'')])]
     [] no_ai"

definition declaring_world :: world where
  "declaring_world =
     \<lparr>local_storage = Map.empty,
      files = skills_root [(''a'', Dir [(''SKILL.md'',
                File ''---\<newline>name: x\<newline>description: first\<newline>---\<newline>\<newline>A'')])]\<rparr>"

text \<open>The root holds the directory \<open>z\<close>, whose document declares the name \<open>x\<close>. The
  world and the record after \<open>createSkill\<close> of the skill \<open>x\<close> with the description \<open>d\<close> and
  the body \<open>c\<close> in that root, and the two records listed after the second call.\<close>

definition later_entry :: "string \<times> node" where
  "later_entry = (''z'', Dir [(''SKILL.md'',
     File ''---\<newline>name: x\<newline>description: first\<newline>---\<newline>\<newline>A'')])"

definition later_world :: world where
  "later_world = \<lparr>local_storage = Map.empty, files = skills_root [later_entry]\<rparr>"

definition created_beside :: "string \<Rightarrow> string \<Rightarrow> world" where
  "created_beside d c =
     \<lparr>local_storage = Map.empty,
      files = skills_root [later_entry, (''x'', Dir [(''SKILL.md'',
                File (''---\<newline>name: x\<newline>description: '' @ d @ ''\<newline>---\<newline>\<newline>'' @ c))])]\<rparr>"

definition created_record :: "string \<Rightarrow> string \<Rightarrow> skill" where
  "created_record d c =
     \<lparr>name = ''x'', path = [''home'', ''u'', ''.claude'', ''skills'', ''x''],
      metadata = [(''name'', Str ''x''), (''description'', Str d),
                  (''allowedTools'', Undefined), (''model'', Undefined)],
      content = c, supportingFiles = [],
      skillMdPath = [''home'', ''u'', ''.claude'', ''skills'', ''x'', ''SKILL.md'']\<rparr>"

definition listed_x :: skill where
  "listed_x =
     \<lparr>name = ''x'', path = [''home'', ''u'', ''.claude'', ''skills'', ''x''],
      metadata = [(''name'', Str ''x''), (''description'', Str ''d2'')],
      content = ''body2'', supportingFiles = [],
      skillMdPath = [''home'', ''u'', ''.claude'', ''skills'', ''x'', ''SKILL.md'']\<rparr>"

definition listed_z :: skill where
  "listed_z =
     \<lparr>name = ''z'', path = [''home'', ''u'', ''.claude'', ''skills'', ''z''],
      metadata = [(''name'', Str ''x''), (''description'', Str ''first'')],
      content = ''A'', supportingFiles = [],
      skillMdPath = [''home'', ''u'', ''.claude'', ''skills'', ''z'', ''SKILL.md'']\<rparr>"

section \<open>Properties\<close>

subsection \<open>Searching and trimming\<close>

lemma startsWith_prefix: "startsWith s p = prefix p s"
  by (induction s p rule: startsWith.induct) auto

lemma search_None_iff: "search s p = None \<longleftrightarrow> \<not> sublist p s"
  by (induction s) (auto simp: startsWith_prefix sublist_Cons_right)

lemma search_first:
  "\<forall>j<length a. \<not> startsWith (drop j (a @ p @ b)) p \<Longrightarrow> search (a @ p @ b) p = Some (length a)"
proof (induction a)
  case Nil
  have "startsWith (p @ b) p" by (simp add: startsWith_prefix)
  then show ?case by (cases "p @ b") auto
next
  case (Cons x a)
  have "\<not> startsWith ((x # a) @ p @ b) p" using Cons.prems by force
  moreover have "\<forall>j<length a. \<not> startsWith (drop j (a @ p @ b)) p"
  proof (intro allI impI)
    fix j assume "j < length a"
    then have "Suc j < length (x # a)" by simp
    then have "\<not> startsWith (drop (Suc j) ((x # a) @ p @ b)) p" using Cons.prems by blast
    then show "\<not> startsWith (drop j (a @ p @ b)) p" by simp
  qed
  ultimately show ?case using Cons.IH by simp
qed

lemma trim_Cons_space: "is_space c \<Longrightarrow> trim (c # s) = trim s"
  by (simp add: trim_def)

lemma trim_snoc_space:
  assumes that: "is_space c"
  shows "trim (s @ [c]) = trim s"
proof (cases "\<forall>x\<in>set s. is_space x")
  case True
  then have e: "dropWhile is_space s = []" by simp
  have "dropWhile is_space (s @ [c]) = []" using True that by simp
  then show ?thesis by (simp add: trim_def e)
next
  case False
  then have "dropWhile is_space (s @ [c]) = dropWhile is_space s @ [c]" by (simp add: dropWhile_append)
  then show ?thesis using that by (simp add: trim_def)
qed

lemma no_occurrence_inside:
  assumes "\<not> sublist p (a @ [c])" and "c \<notin> set p"
  shows "\<forall>j<length (a @ [c]). \<not> startsWith (drop j ((a @ [c]) @ p @ b)) p"
proof (intro allI impI notI)
  fix j assume j: "j < length (a @ [c])" and s: "startsWith (drop j ((a @ [c]) @ p @ b)) p"
  define u where "u = drop j a"
  have d: "drop j ((a @ [c]) @ p @ b) = u @ c # p @ b" proof -
    from j have "j \<le> length a" by simp
    then show ?thesis by (simp add: u_def)
  qed
  from s[unfolded d] have pre: "prefix p (u @ c # p @ b)" by (simp add: startsWith_prefix)
  show False
  proof (cases "length p \<le> length u")
    case True
    with pre have "prefix p u"
      by (metis prefix_length_prefix prefixI le_refl prefix_order.order_refl)
    then have "sublist p a" unfolding u_def
      by (metis append_take_drop_id prefix_def sublist_appendI)
    then show False using assms(1) by (metis sublist_append)
  next
    case False
    then have "length u < length p" by simp
    from pre obtain r where r: "u @ c # p @ b = p @ r" by (auto simp: prefix_def)
    have "p ! length u = (p @ r) ! length u" using \<open>length u < length p\<close> by (simp add: nth_append)
    also have "\<dots> = c" unfolding r[symmetric] by (simp add: nth_append)
    finally show False using assms(2) \<open>length u < length p\<close> by (metis nth_mem)
  qed
qed

subsection \<open>The metadata codec\<close>

lemma createSkill_frontmatter_lines:
  "createSkill_frontmatter n d t m =
     ''---'' @ (''\<newline>'' @ metadata_lines n d t m @ ''\<newline>'') @ ''---'' @ ''\<newline>\<newline>''"
  by (simp add: createSkill_frontmatter_def metadata_lines_def split: option.splits)

lemma drop_length_append: "drop (length x) (x @ y) = y"
  by simp

lemma parse_delimited:
  assumes "\<forall>j<length pre. \<not> startsWith (drop j (pre @ ''---'' @ post)) ''---''"
  shows "parseSkillMarkdown h (''---'' @ pre @ ''---'' @ post) =
     (case yaml_parse h (trim pre) of
        None \<Rightarrow> None
      | Some md \<Rightarrow>
          (case camelCaseKeys md of
             None \<Rightarrow> None
           | Some camelCaseMetadata \<Rightarrow> Some (camelCaseMetadata, trim post)))"
proof -
  have s: "search (pre @ ''---'' @ post) ''---'' = Some (length pre)"
    using assms by (rule search_first)
  have i: "indexOf (''---'' @ pre @ ''---'' @ post) ''---'' 3 = Some (length pre + 3)"
    using s by (simp add: indexOf_def)
  have a: "substring (''---'' @ pre @ ''---'' @ post) 3 (length pre + 3) = pre"
    by (simp add: substring_def Let_def)
  have b: "substring_from (''---'' @ pre @ ''---'' @ post) (length pre + 3 + 3) = post"
  proof -
    have "drop (length (''---'' @ pre @ ''---'')) ((''---'' @ pre @ ''---'') @ post) = post"
      by (rule drop_length_append)
    moreover have "length (''---'' @ pre @ ''---'') = length pre + 3 + 3" by simp
    moreover have "(''---'' @ pre @ ''---'') @ post = ''---'' @ pre @ ''---'' @ post" by simp
    ultimately show ?thesis unfolding substring_from_def by metis
  qed
  show ?thesis
    unfolding parseSkillMarkdown_def i a b option.case Let_def by simp
qed

lemma search_le: "search s p = Some k \<Longrightarrow> k \<le> length s"
  by (induction s arbitrary: k) (auto split: if_splits)

lemma parse_opened:
  "parseSkillMarkdown h (''---'' @ rest) =
     (case search rest ''---'' of
        None \<Rightarrow> None
      | Some k \<Rightarrow>
          (case yaml_parse h (trim (take k rest)) of
             None \<Rightarrow> None
           | Some md \<Rightarrow>
               (case camelCaseKeys md of
                  None \<Rightarrow> None
                | Some camelCaseMetadata \<Rightarrow> Some (camelCaseMetadata, trim (drop (k + 3) rest)))))"
proof (cases "search rest ''---''")
  case None
  then show ?thesis by (simp add: parseSkillMarkdown_def indexOf_def)
next
  case (Some k)
  then have k: "k \<le> length rest" by (rule search_le)
  have i: "indexOf (''---'' @ rest) ''---'' 3 = Some (k + 3)"
    using Some by (simp add: indexOf_def)
  have a: "substring (''---'' @ rest) 3 (k + 3) = take k rest"
    using k by (simp add: substring_def Let_def min_def)
  have b: "substring_from (''---'' @ rest) (k + 3 + 3) = drop (k + 3) rest"
  proof -
    have "drop (k + 3 + 3) (''---'' @ rest) = drop (k + 3) (drop 3 (''---'' @ rest))"
      by (simp only: drop_drop)
    also have "drop 3 (''---'' @ rest) = rest" by simp
    finally show ?thesis unfolding substring_from_def .
  qed
  show ?thesis
    unfolding parseSkillMarkdown_def i a b Some option.case Let_def by simp
qed

text \<open>
  Claim C10. The parser does not ask the delimiters to stand alone on a line. A document that
  begins with \<open>---\<close> passes the opening check whatever follows, and the metadata block is the
  text up to the first later occurrence of \<open>---\<close>, wherever it stands: \<open>pre\<close> is any text in
  which no occurrence of \<open>---\<close> begins, so the block handed to the YAML parser is \<open>pre\<close>
  trimmed and the body is the rest trimmed, also when the closing \<open>---\<close> sits inside a
  metadata value. A document that begins with six hyphens has the empty block. In general, a
  document that begins with \<open>---\<close> is rejected only when no further \<open>---\<close> occurs or when the
  block does not parse.
\<close>

theorem parseSkillMarkdown_first_delimiter:
  assumes "\<forall>j<length pre. \<not> startsWith (drop j (pre @ ''---'' @ post)) ''---''"
  shows "parseSkillMarkdown h (''---'' @ pre @ ''---'' @ post) =
     (case yaml_parse h (trim pre) of
        None \<Rightarrow> None
      | Some md \<Rightarrow>
          (case camelCaseKeys md of
             None \<Rightarrow> None
           | Some camelCaseMetadata \<Rightarrow> Some (camelCaseMetadata, trim post)))
   \<and> parseSkillMarkdown h (''------'' @ post) =
     (case yaml_parse h [] of
        None \<Rightarrow> None
      | Some md \<Rightarrow>
          (case camelCaseKeys md of
             None \<Rightarrow> None
           | Some camelCaseMetadata \<Rightarrow> Some (camelCaseMetadata, trim post)))
   \<and> parseSkillMarkdown h (''---'' @ rest) =
     (case search rest ''---'' of
        None \<Rightarrow> None
      | Some k \<Rightarrow>
          (case yaml_parse h (trim (take k rest)) of
             None \<Rightarrow> None
           | Some md \<Rightarrow>
               (case camelCaseKeys md of
                  None \<Rightarrow> None
                | Some camelCaseMetadata \<Rightarrow> Some (camelCaseMetadata, trim (drop (k + 3) rest)))))"
proof (intro conjI)
  show "parseSkillMarkdown h (''---'' @ pre @ ''---'' @ post) =
     (case yaml_parse h (trim pre) of
        None \<Rightarrow> None
      | Some md \<Rightarrow>
          (case camelCaseKeys md of
             None \<Rightarrow> None
           | Some camelCaseMetadata \<Rightarrow> Some (camelCaseMetadata, trim post)))"
    using assms by (rule parse_delimited)
next
  have "parseSkillMarkdown h (''---'' @ [] @ ''---'' @ post) =
     (case yaml_parse h (trim []) of
        None \<Rightarrow> None
      | Some md \<Rightarrow>
          (case camelCaseKeys md of
             None \<Rightarrow> None
           | Some camelCaseMetadata \<Rightarrow> Some (camelCaseMetadata, trim post)))"
    by (rule parse_delimited) simp
  then show "parseSkillMarkdown h (''------'' @ post) =
     (case yaml_parse h [] of
        None \<Rightarrow> None
      | Some md \<Rightarrow>
          (case camelCaseKeys md of
             None \<Rightarrow> None
           | Some camelCaseMetadata \<Rightarrow> Some (camelCaseMetadata, trim post)))"
    by (simp add: trim_def)
next
  show "parseSkillMarkdown h (''---'' @ rest) =
     (case search rest ''---'' of
        None \<Rightarrow> None
      | Some k \<Rightarrow>
          (case yaml_parse h (trim (take k rest)) of
             None \<Rightarrow> None
           | Some md \<Rightarrow>
               (case camelCaseKeys md of
                  None \<Rightarrow> None
                | Some camelCaseMetadata \<Rightarrow> Some (camelCaseMetadata, trim (drop (k + 3) rest)))))"
    by (rule parse_opened)
qed

theorem parseSkillMarkdown_first_delimiter_witness:
  "parseSkillMarkdown (table_host [(''name: a'', DocMap [(''name'', Str ''a'')])] [] no_ai)
        ''---\<newline>name: a---b\<newline>description: d\<newline>---\<newline>\<newline>body''
      = Some (DocMap [(''name'', Str ''a'')], ''b\<newline>description: d\<newline>---\<newline>\<newline>body'')
   \<and> parseSkillMarkdown (table_host [([], DocNull)] [] no_ai) ''------\<newline>text''
      = Some (DocNull, ''text'')"
proof -
  have h: "\<forall>j<length ''\<newline>name: a''. \<not> startsWith (drop j (''\<newline>name: a'' @ ''---'' @ ''b\<newline>description: d\<newline>---\<newline>\<newline>body'')) ''---''"
    by (simp add: All_less_Suc)
  have t1: "trim ''\<newline>name: a'' = ''name: a''" by (simp add: trim_def is_space_def)
  have t2: "trim ''b\<newline>description: d\<newline>---\<newline>\<newline>body'' = ''b\<newline>description: d\<newline>---\<newline>\<newline>body''" by (simp add: trim_def is_space_def)
  have t3: "trim ''\<newline>text'' = ''text''" by (simp add: trim_def is_space_def)
  have t4: "trim [] = []" by (simp add: trim_def)
  show ?thesis
    using h
      parseSkillMarkdown_first_delimiter [OF h, of "table_host [(''name: a'', DocMap [(''name'', Str ''a'')])] [] no_ai"]
      parseSkillMarkdown_first_delimiter [of "[]" "''\<newline>text''" "table_host [([], DocNull)] [] no_ai"]
    by (simp add: t1 t2 t3 t4 table_host_def table_parser_def camel_step_def get_prop_def)
qed

lemma camelKey_allowed_tools: "camelKey ''allowed-tools'' = ''allowedTools''"
  by (simp add: is_lower_def upper_char_def)

lemma camelKey_plain: "camelKey ''name'' = ''name'' \<and> camelKey ''description'' = ''description'' \<and> camelKey ''model'' = ''model''"
  by simp

lemma sublist_Cons_other: "sublist p (c # s) \<Longrightarrow> c \<notin> set p \<Longrightarrow> p \<noteq> [] \<Longrightarrow> sublist p s"
  by (cases p) (auto simp: sublist_Cons_right)

lemma sublist_snoc_other: "sublist p (s @ [c]) \<Longrightarrow> c \<notin> set p \<Longrightarrow> p \<noteq> [] \<Longrightarrow> sublist p s"
proof -
  assume a: "sublist p (s @ [c])" "c \<notin> set p" "p \<noteq> []"
  have "sublist (rev p) (rev (s @ [c]))" using a(1) by (simp only: sublist_rev)
  then have "sublist (rev p) (c # rev s)" by simp
  then have "sublist (rev p) (rev s)" using a(2,3) sublist_Cons_other [of "rev p" c "rev s"] by simp
  then show "sublist p s" by (simp only: sublist_rev)
qed

lemma camelCaseKeys_declared:
  "camelCaseKeys (DocMap (declared_metadata n d t m)) = Some (DocMap (parsed_metadata n d t m))"
  by (simp add: declared_metadata_def parsed_metadata_def camel_step_def get_prop_def
      camelKey_allowed_tools camelKey_plain del: camelKey.simps split: option.splits)

lemma parse_written_document:
  assumes "search (metadata_lines n d t m) ''---'' = None"
    and "yaml_parse h (trim (metadata_lines n d t m)) = Some (DocMap (declared_metadata n d t m))"
  shows "parseSkillMarkdown h (createSkill_frontmatter n d t m @ b)
           = Some (DocMap (parsed_metadata n d t m), trim b)"
proof -
  let ?lines = "metadata_lines n d t m"
  let ?pre = "(''\<newline>'' @ ?lines) @ ''\<newline>''"
  have ns: "\<not> sublist ''---'' ?lines" using assms(1) by (simp add: search_None_iff)
  have "\<not> sublist ''---'' (''\<newline>'' @ ?lines)"
    using ns sublist_Cons_other [of "''---''" "CHR ''\<newline>''" ?lines] by auto
  then have "\<not> sublist ''---'' ?pre"
    using sublist_snoc_other [of "''---''" "''\<newline>'' @ ?lines" "CHR ''\<newline>''"] by auto
  then have "\<forall>j<length ?pre. \<not> startsWith (drop j (?pre @ ''---'' @ (''\<newline>\<newline>'' @ b))) ''---''"
    by (rule no_occurrence_inside) simp
  then have pd: "parseSkillMarkdown h (''---'' @ ?pre @ ''---'' @ (''\<newline>\<newline>'' @ b)) =
     (case yaml_parse h (trim ?pre) of
        None \<Rightarrow> None
      | Some md \<Rightarrow>
          (case camelCaseKeys md of
             None \<Rightarrow> None
           | Some camelCaseMetadata \<Rightarrow> Some (camelCaseMetadata, trim (''\<newline>\<newline>'' @ b))))"
    by (rule parse_delimited)
  have e: "createSkill_frontmatter n d t m @ b = ''---'' @ ?pre @ ''---'' @ (''\<newline>\<newline>'' @ b)"
    by (simp add: createSkill_frontmatter_lines)
  have t1: "trim ?pre = trim ?lines"
    using trim_snoc_space [of "CHR ''\<newline>''" "''\<newline>'' @ ?lines"]
      trim_Cons_space [of "CHR ''\<newline>''" ?lines]
    by (simp add: is_space_def)
  have t2: "trim (''\<newline>\<newline>'' @ b) = trim b"
    using trim_Cons_space [of "CHR ''\<newline>''" "CHR ''\<newline>'' # b"] trim_Cons_space [of "CHR ''\<newline>''" b]
    by (simp add: is_space_def)
  show ?thesis
    unfolding e pd t1 t2 assms(2) option.case camelCaseKeys_declared by (rule refl)
qed

text \<open>
  Claim C1, as amended. When the lines written for the metadata contain no \<open>---\<close> and the
  YAML parser reads them (trimmed) as the mapping they spell out, parsing the document that
  \<open>createSkill\<close> writes succeeds; the name, the description, the tool list and the model read
  back as they were given (a tool list that is empty and a model that is empty read back as
  \<open>undefined\<close>), and the body read back is the given body trimmed.
\<close>

theorem parse_createSkill_document:
  assumes "search (metadata_lines n d t m) ''---'' = None"
    and "yaml_parse h (trim (metadata_lines n d t m)) = Some (DocMap (declared_metadata n d t m))"
  shows "parseSkillMarkdown h (createSkill_frontmatter n d t m @ b)
           = Some (DocMap (parsed_metadata n d t m), trim b)
         \<and> get_prop (parsed_metadata n d t m) ''name'' = Str n
         \<and> get_prop (parsed_metadata n d t m) ''description'' = Str d
         \<and> get_prop (parsed_metadata n d t m) ''allowedTools''
             = (case t of None \<Rightarrow> Undefined | Some ts \<Rightarrow> if ts \<noteq> [] then Strs ts else Undefined)
         \<and> get_prop (parsed_metadata n d t m) ''model''
             = (case m of None \<Rightarrow> Undefined | Some x \<Rightarrow> if x \<noteq> [] then Str x else Undefined)"
proof -
  have p: "parseSkillMarkdown h (createSkill_frontmatter n d t m @ b)
           = Some (DocMap (parsed_metadata n d t m), trim b)"
    using assms by (rule parse_written_document)
  have g: "get_prop (parsed_metadata n d t m) ''name'' = Str n
         \<and> get_prop (parsed_metadata n d t m) ''description'' = Str d
         \<and> get_prop (parsed_metadata n d t m) ''allowedTools''
             = (case t of None \<Rightarrow> Undefined | Some ts \<Rightarrow> if ts \<noteq> [] then Strs ts else Undefined)
         \<and> get_prop (parsed_metadata n d t m) ''model''
             = (case m of None \<Rightarrow> Undefined | Some x \<Rightarrow> if x \<noteq> [] then Str x else Undefined)"
    by (simp add: parsed_metadata_def declared_metadata_def get_prop_def split: option.splits)
  from p g show ?thesis by blast
qed

text \<open>
  Claim C1 as stated fails: a body that begins with a space is read back without it.
\<close>

theorem roundtrip_body_counterexample:
  "parseSkillMarkdown roundtrip_host (createSkill_frontmatter ''a'' ''d'' None None @ '' x'')
     = Some (DocMap [(''name'', Str ''a''), (''description'', Str ''d'')], ''x'')
   \<and> ''x'' \<noteq> '' x''"
  by (simp add: parseSkillMarkdown_def createSkill_frontmatter_def indexOf_def substring_def
      substring_from_def trim_def is_space_def roundtrip_host_def table_host_def table_parser_def
      camel_step_def get_prop_def Let_def)

lemma metadata_lines_example:
  \<open>metadata_lines ''a'' ''d'' (Some [''Read'']) (Some ''fast'')
     = ''name: a\<newline>description: d\<newline>allowed-tools: ["Read"]\<newline>model: fast''\<close>
  by (simp add: metadata_lines_def json_quote_def json_escape_def)

theorem parse_createSkill_document_witness:
  \<open>search (metadata_lines ''a'' ''d'' (Some [''Read'']) (Some ''fast'')) ''---'' = None
   \<and> yaml_parse full_host (trim (metadata_lines ''a'' ''d'' (Some [''Read'']) (Some ''fast'')))
       = Some (DocMap (declared_metadata ''a'' ''d'' (Some [''Read'']) (Some ''fast'')))
   \<and> parseSkillMarkdown full_host
         (createSkill_frontmatter ''a'' ''d'' (Some [''Read'']) (Some ''fast'') @ '' x\<newline>'')
       = Some (DocMap [(''name'', Str ''a''), (''description'', Str ''d''),
                       (''allowed-tools'', Strs [''Read'']), (''model'', Str ''fast''),
                       (''allowedTools'', Strs [''Read''])], ''x'')\<close>
proof -
  have h1: "search (metadata_lines ''a'' ''d'' (Some [''Read'']) (Some ''fast'')) ''---'' = None"
    by (simp add: metadata_lines_example)
  have h2: "yaml_parse full_host (trim (metadata_lines ''a'' ''d'' (Some [''Read'']) (Some ''fast'')))
       = Some (DocMap (declared_metadata ''a'' ''d'' (Some [''Read'']) (Some ''fast'')))"
    by (simp add: metadata_lines_example full_host_def table_host_def table_parser_def trim_def
        is_space_def declared_metadata_def)
  have t: "trim '' x\<newline>'' = ''x''" by (simp add: trim_def is_space_def)
  show ?thesis
    using h1 h2 parse_createSkill_document [OF h1 h2, of "'' x\<newline>''"]
    by (simp add: t parsed_metadata_def declared_metadata_def)
qed

subsection \<open>Looking a skill up\<close>

text \<open>
  Claim C3 as stated fails: with the directory \<open>a\<close> declaring the name \<open>x\<close> listed before the
  directory \<open>x\<close>, the identifier \<open>x\<close> finds the directory \<open>a\<close>, although a directory named \<open>x\<close>
  exists.
\<close>

theorem find_skill_counterexample:
  "find_skill [skill_a, skill_x] ''x'' = Some skill_a \<and> name skill_a \<noteq> ''x'' \<and> name skill_x = ''x''"
  by (simp add: find_skill_def skill_a_def skill_x_def get_prop_def)

text \<open>
  Claim C3, as amended. \<open>findSkill\<close> returns the first skill, in the order of discovery, whose
  directory name or declared name equals the identifier: the skills listed before the one
  returned match in neither way. It returns \<open>null\<close> exactly when no skill matches in either
  way.
\<close>

theorem find_skill_first_match:
  "(find_skill skills ident = None \<longleftrightarrow>
      (\<forall>s \<in> set skills. name s \<noteq> ident \<and> get_prop (metadata s) ''name'' \<noteq> Str ident))
   \<and> (\<forall>s. find_skill skills ident = Some s \<longrightarrow>
        (\<exists>pre post. skills = pre @ s # post
           \<and> (name s = ident \<or> get_prop (metadata s) ''name'' = Str ident)
           \<and> (\<forall>t \<in> set pre. name t \<noteq> ident \<and> get_prop (metadata t) ''name'' \<noteq> Str ident)))"
proof (intro conjI allI impI)
  show "find_skill skills ident = None \<longleftrightarrow>
      (\<forall>s \<in> set skills. name s \<noteq> ident \<and> get_prop (metadata s) ''name'' \<noteq> Str ident)"
    by (auto simp: find_skill_def find_None_iff)
next
  fix s assume "find_skill skills ident = Some s"
  then obtain i where i: "i < length skills" "skills ! i = s"
      "name s = ident \<or> get_prop (metadata s) ''name'' = Str ident"
      "\<forall>j<i. \<not> (name (skills ! j) = ident \<or> get_prop (metadata (skills ! j)) ''name'' = Str ident)"
    unfolding find_skill_def find_Some_iff by blast
  have "skills = take i skills @ s # drop (Suc i) skills"
    using i(1,2) by (metis id_take_nth_drop)
  moreover have "\<forall>t \<in> set (take i skills). name t \<noteq> ident \<and> get_prop (metadata t) ''name'' \<noteq> Str ident"
  proof
    fix t assume "t \<in> set (take i skills)"
    then obtain j where "j < i" "j < length skills" "t = skills ! j"
      by (auto simp: in_set_conv_nth)
    then show "name t \<noteq> ident \<and> get_prop (metadata t) ''name'' \<noteq> Str ident"
      using i(4) by blast
  qed
  ultimately show "\<exists>pre post. skills = pre @ s # post
           \<and> (name s = ident \<or> get_prop (metadata s) ''name'' = Str ident)
           \<and> (\<forall>t \<in> set pre. name t \<noteq> ident \<and> get_prop (metadata t) ''name'' \<noteq> Str ident)"
    using i(3) by blast
qed

theorem find_skill_first_match_witness:
  "find_skill [skill_x, skill_a] ''x'' = Some skill_x
   \<and> (\<exists>pre post. [skill_x, skill_a] = pre @ skill_x # post
         \<and> (name skill_x = ''x'' \<or> get_prop (metadata skill_x) ''name'' = Str ''x'')
         \<and> (\<forall>t \<in> set pre. name t \<noteq> ''x'' \<and> get_prop (metadata t) ''name'' \<noteq> Str ''x''))"
proof -
  have f: "find_skill [skill_x, skill_a] ''x'' = Some skill_x"
    by (simp add: find_skill_def skill_a_def skill_x_def get_prop_def)
  with find_skill_first_match [of "[skill_x, skill_a]" "''x''"] show ?thesis by blast
qed

subsection \<open>The enablement store\<close>

lemma filter_JString:
  "filter (\<lambda>n. n \<noteq> JString x) (map JString names) = map JString (filter (\<lambda>n. n \<noteq> x) names)"
  by (induction names) auto

lemma json_stringify_array_nonempty: "json_stringify (JArray xs) \<noteq> []"
  by simp

text \<open>
  Claim C9. When the store holds a list of names, also one with duplicates, and \<open>JSON.parse\<close>
  reads back what \<open>JSON.stringify\<close> prints for the filtered list, \<open>disableSkill\<close> succeeds; the
  list stored afterwards is the old list without any occurrence of the name, the other entries
  in their old order, and \<open>isSkillEnabled\<close> of the name is false.
\<close>

theorem disableSkill_removes_every_occurrence:
  assumes "getEnabledSkills h w = JArray (map JString names)"
    and "json_parse h (json_stringify (JArray (map JString (filter (\<lambda>n. n \<noteq> x) names))))
           = Some (JArray (map JString (filter (\<lambda>n. n \<noteq> x) names)))"
  shows "\<exists>w'. disableSkill h w x = Inr w'
           \<and> getEnabledSkills h w' = JArray (map JString (filter (\<lambda>n. n \<noteq> x) names))
           \<and> isSkillEnabled h w' x = Inr False"
proof -
  let ?kept = "JArray (map JString (filter (\<lambda>n. n \<noteq> x) names))"
  let ?w = "setItem w ENABLED_SKILLS_KEY (json_stringify ?kept)"
  have d: "disableSkill h w x = Inr ?w"
    by (simp add: disableSkill_def assms(1) filter_JString)
  have "local_storage ?w ENABLED_SKILLS_KEY = Some (json_stringify ?kept)"
    by (simp add: setItem_def)
  then have g: "getEnabledSkills h ?w = ?kept"
    unfolding getEnabledSkills_def using assms(2) json_stringify_array_nonempty [of "map JString (filter (\<lambda>n. n \<noteq> x) names)"]
    by simp
  have "isSkillEnabled h ?w x = Inr False"
    unfolding isSkillEnabled_def g by auto
  with d g show ?thesis by blast
qed

theorem disableSkill_removes_every_occurrence_witness:
  \<open>\<exists>w'. disableSkill enabled_host enabled_world ''a'' = Inr w'
           \<and> getEnabledSkills enabled_host w' = JArray [JString ''b'']
           \<and> isSkillEnabled enabled_host w' ''a'' = Inr False\<close>
proof -
  have h1: "getEnabledSkills enabled_host enabled_world = JArray (map JString [''a'', ''b'', ''a''])"
    by (simp add: getEnabledSkills_def enabled_host_def enabled_world_def table_host_def
        table_parser_def ENABLED_SKILLS_KEY_def)
  have h2: "json_parse enabled_host
              (json_stringify (JArray (map JString (filter (\<lambda>n. n \<noteq> ''a'') [''a'', ''b'', ''a'']))))
            = Some (JArray (map JString (filter (\<lambda>n. n \<noteq> ''a'') [''a'', ''b'', ''a''])))"
    by (simp add: enabled_host_def table_host_def table_parser_def json_quote_def json_escape_def)
  show ?thesis
    using disableSkill_removes_every_occurrence [OF h1 h2] by simp
qed

subsection \<open>The router\<close>

text \<open>
  Claim C6. When no routing model preference is configured, the tool returns the setup
  guidance, word for word, and makes no classification call, whatever the request, the store
  of enabled names and the file system.
\<close>

theorem tool_unconfigured:
  assumes "getRoutingModel w = None"
  shows "tool h w request = (Inr setup_guidance, [])"
  using assms by (simp add: tool_def)

theorem tool_unconfigured_witness:
  "getRoutingModel empty_world = None
   \<and> tool enabled_host empty_world ''please shorten this article'' = (Inr setup_guidance, [])"
proof -
  have h: "getRoutingModel empty_world = None"
    by (simp add: getRoutingModel_def empty_world_def)
  show ?thesis using h tool_unconfigured [OF h] by simp
qed

subsection \<open>Records are loaded from their documents\<close>

lemma scan_entry_loaded:
  assumes "scan_entry h root folder entry = Inr found" and "s \<in> set found"
  shows "loaded_from h root s"
  using assms
  by (auto simp: scan_entry_def Let_def loaded_from_def
      split: if_splits sum.splits option.splits yaml_doc.splits prod.splits)

lemma scan_entries_loaded:
  "scan_entries h root folder entries = Inr found \<Longrightarrow> s \<in> set found \<Longrightarrow> loaded_from h root s"
proof (induction entries arbitrary: found)
  case Nil
  then show ?case by simp
next
  case (Cons entry entries)
  then show ?case
    by (auto split: sum.splits dest: scan_entry_loaded)
qed

lemma scan_folder_loaded:
  "scan_folder h root f = Inr found \<Longrightarrow> s \<in> set found \<Longrightarrow> loaded_from h root s"
  by (induction h root f rule: scan_folder.induct)
     (auto split: option.splits sum.splits dest: scan_entries_loaded)

lemma scan_folders_loaded:
  "scan_folders h root fs = Inr found \<Longrightarrow> s \<in> set found \<Longrightarrow> loaded_from h root s"
proof (induction fs arbitrary: found)
  case Nil
  then show ?case by simp
next
  case (Cons f fs)
  then show ?case
    by (auto split: sum.splits dest: scan_folder_loaded)
qed

lemma getAllSkills_loaded:
  "s \<in> set (getAllSkills h w) \<Longrightarrow> loaded_from h (files w) s"
  by (auto simp: getAllSkills_def getAllSkills_try_def split: sum.splits
      dest: scan_folders_loaded [OF sym] scan_folders_loaded)

lemma find_skill_member: "find_skill skills ident = Some s \<Longrightarrow> s \<in> set skills"
  by (auto simp: find_skill_def find_Some_iff)

lemma findSkill_loaded:
  "findSkill h w ident = Some s \<Longrightarrow> loaded_from h (files w) s"
  unfolding findSkill_def by (blast dest: find_skill_member getAllSkills_loaded)

lemma getEnabledSkillObjects_subset:
  "getEnabledSkillObjects h w = Inr es \<Longrightarrow> set es \<subseteq> set (getAllSkills h w)"
  by (auto simp: getEnabledSkillObjects_def split: sum.splits dest!: set_zip_leftD)

lemma enabled_declared_name:
  "getEnabledSkillObjects h w = Inr es \<Longrightarrow> s \<in> set es \<Longrightarrow> get_prop (metadata s) ''name'' \<noteq> Str []"
proof -
  assume "getEnabledSkillObjects h w = Inr es" "s \<in> set es"
  then have "loaded_from h (files w) s"
    using getEnabledSkillObjects_subset getAllSkills_loaded by blast
  then have "truthy (get_prop (metadata s) ''name'')" by (simp add: loaded_from_def)
  then show ?thesis by auto
qed

subsection \<open>The example of the router\<close>

lemma router_world_all:
  "getAllSkills (router_host ai) router_world = [summarizer]"
  by (simp add: getAllSkills_def getAllSkills_try_def getSkillsFolderPaths_def getSkillsFolders_def
      default_folders_def router_host_def router_world_def table_host_def table_parser_def
      resolve_def path_step_def path_join_def existsSync_def readdirSync_def readFileSync_def
      locate_def scan_entry_def summarizer_document_def summarizer_def
      parseSkillMarkdown_def indexOf_def substring_def substring_from_def trim_def is_space_def
      camel_step_def get_prop_def Let_def ENABLED_SKILLS_KEY_def ROUTING_MODEL_KEY_def)

lemma router_world_enabled:
  "getEnabledSkillObjects (router_host ai) router_world = Inr [summarizer]"
  unfolding getEnabledSkillObjects_def router_world_all
  by (simp add: getEnabledSkills_def
       router_host_def router_world_def table_host_def table_parser_def summarizer_def
       ENABLED_SKILLS_KEY_def ROUTING_MODEL_KEY_def)

lemma router_world_model: "getRoutingModel router_world = Some ''Gemini_2_5_Flash_Lite''"
  by (simp add: getRoutingModel_def router_world_def ENABLED_SKILLS_KEY_def ROUTING_MODEL_KEY_def)

subsection \<open>Normalising and routing\<close>

lemma replace_quotes_False:
  "replace_quotes False s = (if s \<noteq> [] \<and> is_quote (last s) then butlast s else s)"
  by (induction s) auto

lemma replace_quotes_strip: "replace_quotes True s = strip_quotes s"
proof (cases s)
  case Nil
  then show ?thesis by (simp add: strip_quotes_def)
next
  case (Cons c cs)
  show ?thesis
  proof (cases cs)
    case Nil
    with Cons show ?thesis by (simp add: strip_quotes_def)
  next
    case (Cons d ds)
    with \<open>s = c # cs\<close> show ?thesis
      by (simp add: strip_quotes_def replace_quotes_False)
  qed
qed

lemma upper_char_N: "upper_char c = CHR ''N'' \<longleftrightarrow> c = CHR ''n'' \<or> c = CHR ''N''"
  by (auto simp: upper_char_def split: if_splits)

lemma upper_char_O: "upper_char c = CHR ''O'' \<longleftrightarrow> c = CHR ''o'' \<or> c = CHR ''O''"
  by (auto simp: upper_char_def split: if_splits)

lemma upper_char_E: "upper_char c = CHR ''E'' \<longleftrightarrow> c = CHR ''e'' \<or> c = CHR ''E''"
  by (auto simp: upper_char_def split: if_splits)

lemma toUpperCase_NONE:
  "toUpperCase s = ''NONE'' \<longleftrightarrow>
     (\<exists>a b c d. s = [a, b, c, d] \<and> (a = CHR ''n'' \<or> a = CHR ''N'') \<and> (b = CHR ''o'' \<or> b = CHR ''O'')
        \<and> (c = CHR ''n'' \<or> c = CHR ''N'') \<and> (d = CHR ''e'' \<or> d = CHR ''E''))"
proof -
  have "toUpperCase s = ''NONE'' \<longleftrightarrow>
     (\<exists>a b c d. s = [a, b, c, d] \<and> upper_char a = CHR ''N'' \<and> upper_char b = CHR ''O''
        \<and> upper_char c = CHR ''N'' \<and> upper_char d = CHR ''E'')"
    by (auto simp: toUpperCase_def map_eq_Cons_conv)
  then show ?thesis by (simp only: upper_char_N upper_char_O upper_char_E)
qed

text \<open>
  Claim C5. When a routing model is configured, some skills are enabled and the classification
  call throws, the tool returns the no-match message that lists the enabled skills; no
  exception leaves the tool. The call was made once, with the prompt built from those skills.
\<close>

theorem tool_classification_failure:
  assumes "getRoutingModel w = Some routingModel"
    and "getEnabledSkillObjects h w = Inr enabledSkills"
    and "enabledSkills \<noteq> []"
    and "ai_ask h (build_prompt enabledSkills request) routingModel = None"
  shows "tool h w request =
           (Inr (formatNoMatchMessage enabledSkills), [(build_prompt enabledSkills request, routingModel)])"
  using assms by (simp add: tool_def selectSkillWithAI_def Let_def)

theorem tool_classification_failure_witness:
  "tool (router_host no_ai) router_world ''please shorten this article'' =
     (Inr (formatNoMatchMessage [summarizer]),
      [(build_prompt [summarizer] ''please shorten this article'', ''Gemini_2_5_Flash_Lite'')])"
proof -
  have a: "ai_ask (router_host no_ai) (build_prompt [summarizer] ''please shorten this article'')
             ''Gemini_2_5_Flash_Lite'' = None"
    by (simp add: router_host_def table_host_def no_ai_def)
  have n: "[summarizer] \<noteq> []" by simp
  show ?thesis
    by (rule tool_classification_failure [OF router_world_model router_world_enabled n a])
qed

text \<open>
  Claim C7. When the classification call answers, the tool trims the answer, removes one quote
  character from the front and one from the back where there is one, and returns the no-match
  message when the result, in upper case, is \<open>NONE\<close>; otherwise it resolves the result against
  the enabled skills, by directory name or declared name, and returns the instructions of the
  skill found, or the no-match message when none is found. Directory names are not empty.
\<close>

theorem tool_normalizes_response:
  assumes "getRoutingModel w = Some routingModel"
    and "getEnabledSkillObjects h w = Inr enabledSkills"
    and "enabledSkills \<noteq> []"
    and "\<forall>s \<in> set enabledSkills. name s \<noteq> []"
    and "ai_ask h (build_prompt enabledSkills request) routingModel = Some response"
  shows "fst (tool h w request) =
           (let ident = strip_quotes (trim response)
            in if toUpperCase ident = ''NONE'' then Inr (formatNoMatchMessage enabledSkills)
               else (case find_skill enabledSkills ident of
                       None \<Rightarrow> Inr (formatNoMatchMessage enabledSkills)
                     | Some s \<Rightarrow> Inr (formatSkillResponse s)))"
proof -
  have "\<forall>s \<in> set enabledSkills. get_prop (metadata s) ''name'' \<noteq> Str []"
    using assms(2) enabled_declared_name by blast
  then have e: "find_skill enabledSkills [] = None"
    using assms(4) by (auto simp: find_skill_def find_None_iff)
  show ?thesis
    using assms(1,2,3,5) e
    by (auto simp: tool_def selectSkillWithAI_def Let_def replace_quotes_strip find_skill_def
        split: option.splits)
qed

lemma summarizer_names:
  "\<forall>s \<in> set [summarizer]. name s \<noteq> []"
  by (simp add: summarizer_def)

theorem tool_normalizes_response_witness:
  \<open>fst (tool (router_host (answer '' "summarizer"\<newline>'')) router_world ''please shorten this article'')
     = Inr (formatSkillResponse summarizer)
   \<and> fst (tool (router_host (answer '' 'None' '')) router_world ''please shorten this article'')
     = Inr (formatNoMatchMessage [summarizer])\<close>
proof -
  have n: "[summarizer] \<noteq> []" by simp
  have a1: \<open>ai_ask (router_host (answer '' "summarizer"\<newline>'')) (build_prompt [summarizer] ''please shorten this article'')
             ''Gemini_2_5_Flash_Lite'' = Some '' "summarizer"\<newline>''\<close>
    by (simp add: router_host_def table_host_def answer_def)
  have a2: \<open>ai_ask (router_host (answer '' 'None' '')) (build_prompt [summarizer] ''please shorten this article'')
             ''Gemini_2_5_Flash_Lite'' = Some '' 'None' ''\<close>
    by (simp add: router_host_def table_host_def answer_def)
  have s1: \<open>strip_quotes (trim '' "summarizer"\<newline>'') = ''summarizer''\<close>
    by (simp add: strip_quotes_def trim_def is_space_def is_quote_def)
  have s2: \<open>strip_quotes (trim '' 'None' '') = ''None''\<close>
    by (simp add: strip_quotes_def trim_def is_space_def is_quote_def)
  have u1: "toUpperCase ''summarizer'' \<noteq> ''NONE''" by (simp add: toUpperCase_def)
  have u2: "toUpperCase ''None'' = ''NONE''" by (simp add: toUpperCase_def upper_char_def)
  have f: "find_skill [summarizer] ''summarizer'' = Some summarizer"
    by (simp add: find_skill_def summarizer_def)
  show ?thesis
    using tool_normalizes_response [OF router_world_model router_world_enabled n summarizer_names a1]
      tool_normalizes_response [OF router_world_model router_world_enabled n summarizer_names a2]
    by (simp add: s1 s2 u1 u2 f)
qed

subsection \<open>Listing the skills\<close>

lemmas eval_defs =
  getAllSkills_def getAllSkills_try_def getSkillsFolderPaths_def getSkillsFolders_def
  default_folders_def table_host_def table_parser_def
  resolve_def path_step_def path_join_def existsSync_def readdirSync_def readFileSync_def
  locate_def scan_entry_def parseSkillMarkdown_def indexOf_def substring_def substring_from_def trim_def
  is_space_def camel_step_def get_prop_def Let_def

text \<open>The example of the specification: the directory without a description is skipped.\<close>

lemma getAllSkills_no_description:
  "getAllSkills listing_host no_description_world = [record_a]"
  by (simp add: eval_defs listing_host_def no_description_world_def skills_root_def valid_a_def
      record_a_def)

text \<open>
  Claim C4 fails on the code. A directory whose document has an empty metadata block makes
  \<open>YAML.parse\<close> return \<open>null\<close>; reading the name of \<open>null\<close> throws a TypeError, which the
  \<open>catch\<close> around the whole listing turns into the empty list: the valid directory \<open>a\<close> is
  not listed.
\<close>

theorem getAllSkills_empty_block:
  "getAllSkills_try listing_host empty_block_world = Inl TypeError
   \<and> getAllSkills listing_host empty_block_world = []"
  by (simp add: eval_defs listing_host_def empty_block_world_def skills_root_def valid_a_def)

subsection \<open>Writing and reading files\<close>

lemma map_of_set_prop_same: "map_of (set_prop es c n) c = Some n"
  by (induction es) auto

lemma map_of_set_prop_other: "c' \<noteq> c \<Longrightarrow> map_of (set_prop es c n) c' = map_of es c'"
  by (induction es) auto

lemma set_prop_same: "map_of es c = Some n \<Longrightarrow> set_prop es c n = es"
  by (induction es) (auto split: if_splits)

lemma map_of_snoc_new: "map_of es c = None \<Longrightarrow> map_of (es @ [(c, n)]) c = Some n"
  by (induction es) (auto split: if_splits)

lemma writeFileSync_lookup:
  "writeFileSync n p d = Inr n' \<Longrightarrow> lookup n' p = Some (File d)"
proof (induction p arbitrary: n n')
  case Nil
  then show ?case by (auto split: node.splits)
next
  case (Cons c cs)
  from Cons.prems obtain es where n: "n = Dir es" by (cases n) auto
  show ?case
  proof (cases "map_of es c")
    case None
    with Cons.prems n have "cs = []" and "n' = Dir (es @ [(c, File d)])"
      by (auto split: if_splits)
    with None show ?thesis by (simp add: map_add_def)
  next
    case (Some child)
    with Cons.prems n obtain ch where ch: "writeFileSync child cs d = Inr ch"
        and n': "n' = Dir (set_prop es c ch)"
      by (auto split: sum.splits)
    from Cons.IH [OF ch] n' show ?thesis by (simp add: map_of_set_prop_same)
  qed
qed

lemma writeFileSync_again:
  "lookup n p = Some (File x) \<Longrightarrow> \<exists>n'. writeFileSync n p d = Inr n'"
proof (induction p arbitrary: n)
  case Nil
  then show ?case by auto
next
  case (Cons c cs)
  then show ?case
    by (fastforce split: node.splits option.splits)
qed

lemma mkdirSync_existing:
  "lookup n p = Some (Dir es) \<Longrightarrow> mkdirSync n p = Inr n"
proof (induction p arbitrary: n)
  case Nil
  then show ?case by auto
next
  case (Cons c cs)
  then show ?case
    by (auto simp: set_prop_same split: node.splits option.splits)
qed

lemma writeFileSync_parent:
  "writeFileSync n (p @ [f]) d = Inr n' \<Longrightarrow> \<exists>es. lookup n' p = Some (Dir es)"
proof (induction p arbitrary: n n')
  case Nil
  then show ?case by (auto split: node.splits option.splits if_splits sum.splits)
next
  case (Cons c cs)
  then show ?case
    by (auto simp: map_of_set_prop_same split: node.splits option.splits if_splits sum.splits)
qed

lemma path_join_SKILL: "path_join p ''SKILL.md'' = p @ [''SKILL.md'']"
  by (simp add: path_join_def path_step_def)

subsection \<open>Updating a skill\<close>

lemmas create_defs =
  createSkill_def getSkillsFolderPath_def createSkill_frontmatter_def findSkill_def find_skill_def

lemma licensed_find: "findSkill licensed_host licensed_world ''a'' = Some licensed_record"
  by (simp add: findSkill_def find_skill_def eval_defs licensed_host_def licensed_world_def
      licensed_record_def skills_root_def)

text \<open>
  Claim C2 as stated fails: the document of the skill \<open>a\<close> carries the key \<open>license\<close>; after
  an update that provides only a model, the rewritten document has no such line.
\<close>

theorem updateSkill_drops_extra_key:
  "document_after (updateSkill licensed_host licensed_world ''a'' [(''model'', Str ''fast'')])
       [''home'', ''u'', ''.claude'', ''skills'', ''a'', ''SKILL.md'']
     = Some ''---\<newline>name: a\<newline>description: old\<newline>model: fast\<newline>---\<newline>\<newline>body''
   \<and> map_option (\<lambda>sk. get_prop (metadata sk) ''license'') (findSkill licensed_host licensed_world ''a'')
     = Some (Str ''MIT'')"
  unfolding document_after_def updateSkill_def licensed_find
  by (simp add: licensed_record_def
      spread_def newContent_def updateSkill_frontmatter_def get_prop_def
      licensed_host_def licensed_world_def skills_root_def table_host_def table_parser_def
      readFileSync_def parseSkillMarkdown_def indexOf_def substring_def substring_from_def trim_def
      is_space_def camel_step_def Let_def)

lemma get_prop_set_prop: "get_prop (set_prop m k v) k' = (if k' = k then v else get_prop m k')"
  by (simp add: get_prop_def map_of_set_prop_same map_of_set_prop_other)

lemma get_prop_spread: "get_prop (spread base updates) k = pick base updates k"
proof (induction updates rule: rev_induct)
  case Nil
  then show ?case by (simp add: spread_def pick_def)
next
  case (snoc u us)
  have "spread base (us @ [u]) = set_prop (spread base us) (fst u) (snd u)"
    by (simp add: spread_def)
  then show ?case using snoc
    by (cases u) (auto simp: get_prop_set_prop pick_def)
qed

lemma pick_absent: "map_of updates k = None \<Longrightarrow> pick current updates k = get_prop current k"
proof -
  assume "map_of updates k = None"
  then have "k \<notin> fst ` set updates" by (simp add: map_of_eq_None_iff)
  then have "map_of (rev updates) k = None" by (simp add: map_of_eq_None_iff)
  then show ?thesis by (simp add: pick_def)
qed

lemma updateSkill_frontmatter_fields:
  "updateSkill_frontmatter md =
     updateSkill_frontmatter
       [(''name'', get_prop md ''name''), (''description'', get_prop md ''description''),
        (''allowedTools'', get_prop md ''allowedTools''), (''model'', get_prop md ''model'')]"
  by (simp add: updateSkill_frontmatter_def get_prop_def)

text \<open>
  Claim C2, as amended. For an existing skill and an update none of whose properties is
  \<open>undefined\<close>, \<open>updateSkill\<close> merges the properties of the update over the metadata of the
  record, which is the metadata parsed from the current document. The rewritten document holds
  the name, the description, the tool list (when not empty) and the model (when not empty) of
  the merged metadata and the body (the one of the update, or the current one), and nothing
  else: each of these four fields that the update does not have is written with its current
  value. Every other key the update does not have keeps its value in the returned record, and
  is not written to the document.
\<close>

theorem updateSkill_rewrites_known_fields:
  assumes "findSkill h w ident = Some sk"
    and "Undefined \<notin> snd ` set updates"
  shows "\<exists>doc body w'.
      readFileSync (files w) (skillMdPath sk) = Inr doc
    \<and> parseSkillMarkdown h doc = Some (DocMap (metadata sk), body)
    \<and> updateSkill h w ident updates
        = Inr (w', Some (sk\<lparr>metadata := spread (metadata sk) updates, content := newContent updates body\<rparr>))
    \<and> readFileSync (files w') (skillMdPath sk)
        = Inr (updateSkill_frontmatter
                 [(''name'', pick (metadata sk) updates ''name''),
                  (''description'', pick (metadata sk) updates ''description''),
                  (''allowedTools'', pick (metadata sk) updates ''allowedTools''),
                  (''model'', pick (metadata sk) updates ''model'')]
               @ newContent updates body)
    \<and> (\<forall>k. map_of updates k = None \<longrightarrow>
          pick (metadata sk) updates k = get_prop (metadata sk) k
          \<and> get_prop (spread (metadata sk) updates) k = get_prop (metadata sk) k)"
proof -
  from assms(1) have "loaded_from h (files w) sk" by (rule findSkill_loaded)
  then obtain doc where doc: "readFileSync (files w) (skillMdPath sk) = Inr doc"
      and parsed: "parseSkillMarkdown h doc = Some (DocMap (metadata sk), content sk)"
    by (auto simp: loaded_from_def)
  let ?body = "content sk"
  let ?md = "spread (metadata sk) updates"
  let ?new = "updateSkill_frontmatter ?md @ newContent updates ?body"
  from doc have "\<exists>x. lookup (files w) (skillMdPath sk) = Some (File x)"
    by (auto simp: readFileSync_def split: option.splits node.splits)
  then obtain fs' where wr: "writeFileSync (files w) (skillMdPath sk) ?new = Inr fs'"
    using writeFileSync_again by blast
  then have rd: "readFileSync fs' (skillMdPath sk) = Inr ?new"
    by (simp add: readFileSync_def writeFileSync_lookup)
  have u: "updateSkill h w ident updates
        = Inr (w\<lparr>files := fs'\<rparr>, Some (sk\<lparr>metadata := ?md, content := newContent updates ?body\<rparr>))"
    by (simp add: updateSkill_def assms(1) doc parsed wr Let_def)
  have f: "updateSkill_frontmatter ?md =
      updateSkill_frontmatter
                 [(''name'', pick (metadata sk) updates ''name''),
                  (''description'', pick (metadata sk) updates ''description''),
                  (''allowedTools'', pick (metadata sk) updates ''allowedTools''),
                  (''model'', pick (metadata sk) updates ''model'')]"
    by (subst updateSkill_frontmatter_fields) (simp only: get_prop_spread)
  have k: "\<forall>k. map_of updates k = None \<longrightarrow>
          pick (metadata sk) updates k = get_prop (metadata sk) k
          \<and> get_prop (spread (metadata sk) updates) k = get_prop (metadata sk) k"
    by (simp add: get_prop_spread pick_absent)
  have r: "readFileSync (files (w\<lparr>files := fs'\<rparr>)) (skillMdPath sk)
        = Inr (updateSkill_frontmatter
                 [(''name'', pick (metadata sk) updates ''name''),
                  (''description'', pick (metadata sk) updates ''description''),
                  (''allowedTools'', pick (metadata sk) updates ''allowedTools''),
                  (''model'', pick (metadata sk) updates ''model'')]
               @ newContent updates ?body)"
    using rd f by simp
  from doc parsed u r k show ?thesis by blast
qed

theorem updateSkill_rewrites_known_fields_witness:
  "\<exists>w' r. updateSkill licensed_host licensed_world ''a'' [(''description'', Str ''new'')] = Inr (w', r)
     \<and> readFileSync (files w') [''home'', ''u'', ''.claude'', ''skills'', ''a'', ''SKILL.md'']
         = Inr ''---\<newline>name: a\<newline>description: new\<newline>---\<newline>\<newline>body''"
proof -
  have u: "Undefined \<notin> snd ` set [(''description'', Str ''new'')]" by simp
  from updateSkill_rewrites_known_fields [OF licensed_find u]
  obtain doc body w' where
      doc: "readFileSync (files licensed_world) (skillMdPath licensed_record) = Inr doc"
    and parsed: "parseSkillMarkdown licensed_host doc = Some (DocMap (metadata licensed_record), body)"
    and upd: "updateSkill licensed_host licensed_world ''a'' [(''description'', Str ''new'')]
        = Inr (w', Some (licensed_record\<lparr>metadata := spread (metadata licensed_record) [(''description'', Str ''new'')],
                 content := newContent [(''description'', Str ''new'')] body\<rparr>))"
    and rd: "readFileSync (files w') (skillMdPath licensed_record)
        = Inr (updateSkill_frontmatter
                 [(''name'', pick (metadata licensed_record) [(''description'', Str ''new'')] ''name''),
                  (''description'', pick (metadata licensed_record) [(''description'', Str ''new'')] ''description''),
                  (''allowedTools'', pick (metadata licensed_record) [(''description'', Str ''new'')] ''allowedTools''),
                  (''model'', pick (metadata licensed_record) [(''description'', Str ''new'')] ''model'')]
               @ newContent [(''description'', Str ''new'')] body)"
    by blast
  have "readFileSync (files licensed_world) (skillMdPath licensed_record)
          = Inr ''---\<newline>name: a\<newline>description: old\<newline>license: MIT\<newline>---\<newline>\<newline>body''"
    by (simp add: readFileSync_def licensed_world_def licensed_record_def skills_root_def)
  with doc have d: "doc = ''---\<newline>name: a\<newline>description: old\<newline>license: MIT\<newline>---\<newline>\<newline>body''"
    by simp
  have "parseSkillMarkdown licensed_host doc = Some (DocMap (metadata licensed_record), ''body'')"
    unfolding d
    by (simp add: parseSkillMarkdown_def indexOf_def substring_def substring_from_def trim_def
        is_space_def camel_step_def get_prop_def Let_def licensed_host_def table_host_def
        table_parser_def licensed_record_def)
  with parsed have b: "body = ''body''" by simp
  have "readFileSync (files w') [''home'', ''u'', ''.claude'', ''skills'', ''a'', ''SKILL.md'']
         = Inr ''---\<newline>name: a\<newline>description: new\<newline>---\<newline>\<newline>body''"
    using rd unfolding b
    by (simp add: licensed_record_def pick_def get_prop_def updateSkill_frontmatter_def
        newContent_def)
  with upd show ?thesis by blast
qed

text \<open>The edit tools pass every field, the ones the user left out as \<open>undefined\<close>. Such a
  property is copied by the spread like any other: an update that provides only a body writes
  the description \<open>undefined\<close>.\<close>

lemma updateSkill_undefined_property:
  "document_after
     (updateSkill licensed_host licensed_world ''a''
        [(''description'', Undefined), (''content'', Str ''new body'')])
     [''home'', ''u'', ''.claude'', ''skills'', ''a'', ''SKILL.md'']
     = Some ''---\<newline>name: a\<newline>description: undefined\<newline>---\<newline>\<newline>new body''"
  unfolding document_after_def updateSkill_def licensed_find
  by (simp add: licensed_record_def
      spread_def newContent_def updateSkill_frontmatter_def get_prop_def
      licensed_host_def licensed_world_def skills_root_def table_host_def table_parser_def
      readFileSync_def parseSkillMarkdown_def indexOf_def substring_def substring_from_def trim_def
      is_space_def camel_step_def Let_def)

subsection \<open>Creating a skill twice\<close>

text \<open>
  Claim C8 as stated fails: when the root already holds the directory \<open>a\<close>, whose document
  declares the name \<open>x\<close>, \<open>findSkill\<close> for \<open>x\<close> after the two calls returns the record of
  \<open>a\<close>, with its description and body, not those of the second call.
\<close>

theorem createSkill_twice_counterexample:
  "create_twice_then_find create_host declaring_world ''x'' ''d'' ''body'' ''d2'' ''body2''
     = Some (''a'', Str ''first'', ''A'')"
  by (simp add: create_twice_then_find_def create_defs eval_defs create_host_def declaring_world_def
      skills_root_def)

text \<open>The example of the specification: on an empty root the record found reflects the
  second call.\<close>

lemma create_twice_example:
  "create_twice_then_find create_host empty_world ''x'' ''d'' ''body'' ''d2'' ''body2''
     = Some (''x'', Str ''d2'', ''body2'')"
  by (simp add: create_twice_then_find_def create_defs eval_defs create_host_def empty_world_def)

lemma getSkillsFolderPath_files:
  "getSkillsFolderPath h (w\<lparr>files := fs\<rparr>) = getSkillsFolderPath h w"
  by (simp add: getSkillsFolderPath_def getSkillsFolderPaths_def getSkillsFolders_def)

text \<open>What a successful \<open>createSkill\<close> did: the folder it chose, the directory it made and the
  document it wrote.\<close>

lemma createSkill_success:
  assumes "createSkill h w n d c t m f = Inr (w1, s1)"
  shows "\<exists>folder fs1 fs2.
      (case f of None \<Rightarrow> getSkillsFolderPath h w
       | Some x \<Rightarrow> if x \<noteq> [] then Inr (JString x) else getSkillsFolderPath h w) = Inr (JString folder)
    \<and> path s1 = path_join (resolve folder) n
    \<and> skillMdPath s1 = path s1 @ [''SKILL.md'']
    \<and> mkdirSync (files w) (path s1) = Inr fs1
    \<and> writeFileSync fs1 (skillMdPath s1) (createSkill_frontmatter n d t m @ c) = Inr fs2
    \<and> w1 = w\<lparr>files := fs2\<rparr>"
  using assms
  by (auto simp: createSkill_def Let_def path_join_SKILL split: sum.splits json.splits)

lemma split_on_plain: "sep \<notin> set s \<Longrightarrow> split_on sep s = [s]"
  by (induction s) auto

lemma path_join_plain: "plain_name n \<Longrightarrow> path_join p n = p @ [n]"
  by (simp add: plain_name_def path_join_def split_on_plain path_step_def)

lemma lookup_append:
  "lookup root (p @ q) = (case lookup root p of None \<Rightarrow> None | Some n \<Rightarrow> lookup n q)"
  by (induction p arbitrary: root) (auto split: node.splits option.splits)

lemma lookup_prefix_dir:
  "lookup root (p @ q) = Some (Dir es) \<Longrightarrow> \<exists>es'. lookup root p = Some (Dir es')"
proof (cases q)
  case Nil
  assume "lookup root (p @ q) = Some (Dir es)"
  with Nil show ?thesis by simp
next
  case (Cons c cs)
  assume "lookup root (p @ q) = Some (Dir es)"
  with Cons show ?thesis
    by (auto simp: lookup_append split: option.splits node.splits)
qed

lemma foldl_path_step_extends:
  "''..'' \<notin> set cs \<Longrightarrow> \<exists>q. foldl path_step cur cs = cur @ q"
proof (induction cs arbitrary: cur)
  case Nil
  then show ?case by simp
next
  case (Cons c cs)
  then have "\<exists>q. foldl path_step (path_step cur c) cs = path_step cur c @ q" by simp
  moreover have "\<exists>q'. path_step cur c = cur @ q'"
    using Cons.prems by (auto simp: path_step_def)
  ultimately show ?case by auto
qed

lemma walk_lexical:
  "''..'' \<notin> set cs \<Longrightarrow> lookup root (foldl path_step cur cs) = Some (Dir es)
     \<Longrightarrow> walk root cur cs = Some (foldl path_step cur cs)"
proof (induction cs arbitrary: cur)
  case Nil
  then show ?case by simp
next
  case (Cons c cs)
  from Cons.prems have nd: "''..'' \<notin> set cs" and c: "c \<noteq> ''..''" by auto
  from Cons.prems have fin: "lookup root (foldl path_step (path_step cur c) cs) = Some (Dir es)"
    by simp
  from foldl_path_step_extends [OF nd] obtain q
    where q: "foldl path_step (path_step cur c) cs = path_step cur c @ q" by blast
  from fin q obtain es' where here: "lookup root (path_step cur c) = Some (Dir es')"
    using lookup_prefix_dir by metis
  have ih: "walk root (path_step cur c) cs = Some (foldl path_step (path_step cur c) cs)"
    using Cons.IH [OF nd fin] .
  show ?case
  proof (cases "c = [] \<or> c = ''.''")
    case True
    then have "path_step cur c = cur" by (auto simp: path_step_def)
    with here ih True show ?thesis by auto
  next
    case False
    with c have "path_step cur c = cur @ [c]" by (simp add: path_step_def)
    with here ih False c show ?thesis by auto
  qed
qed

lemma locate_lexical:
  assumes "s \<noteq> []" and "''..'' \<notin> set (split_on CHR ''/'' s)"
    and "lookup root (resolve s) = Some (Dir es)"
  shows "locate root s = Some (resolve s)"
  using assms walk_lexical [of "split_on CHR ''/'' s" root "[]" es]
  by (simp add: locate_def resolve_def)

lemma lookup_child_listed:
  "lookup root (p @ [n]) = Some d \<Longrightarrow> \<exists>es. lookup root p = Some (Dir es) \<and> (n, d) \<in> set es"
  by (auto simp: lookup_append split: option.splits node.splits dest: map_of_SomeD)

lemma scan_entries_member:
  "scan_entries h root F entries = Inr found \<Longrightarrow> e \<in> set entries
     \<Longrightarrow> \<exists>fe. scan_entry h root F e = Inr fe \<and> set fe \<subseteq> set found"
proof (induction entries arbitrary: found)
  case Nil
  then show ?case by simp
next
  case (Cons x xs)
  from Cons.prems(1) obtain fx rest where fx: "scan_entry h root F x = Inr fx"
      and rest: "scan_entries h root F xs = Inr rest" and found: "found = fx @ rest"
    by (auto split: sum.splits)
  show ?case
  proof (cases "e = x")
    case True
    with fx found show ?thesis by auto
  next
    case False
    with Cons.prems(2) have "e \<in> set xs" by simp
    from Cons.IH [OF rest this] found show ?thesis by auto
  qed
qed

lemma scan_folders_member:
  "scan_folders h root fps = Inr found \<Longrightarrow> f \<in> set fps
     \<Longrightarrow> \<exists>ff. scan_folder h root f = Inr ff \<and> set ff \<subseteq> set found"
proof (induction fps arbitrary: found)
  case Nil
  then show ?case by simp
next
  case (Cons x xs)
  from Cons.prems(1) obtain fx rest where fx: "scan_folder h root x = Inr fx"
      and rest: "scan_folders h root xs = Inr rest" and found: "found = fx @ rest"
    by (auto split: sum.splits)
  show ?case
  proof (cases "f = x")
    case True
    with fx found show ?thesis by auto
  next
    case False
    with Cons.prems(2) have "f \<in> set xs" by simp
    from Cons.IH [OF rest this] found show ?thesis by auto
  qed
qed

lemma scan_entry_document:
  assumes "scan_entry h root F (n, Dir ds) = Inr fe"
    and "path_join F n = F @ [n]"
    and "lookup root (F @ [n, ''SKILL.md'']) = Some (File doc)"
    and "parseSkillMarkdown h doc = Some (DocMap md, body)"
    and "truthy (get_prop md ''name'')" and "truthy (get_prop md ''description'')"
  shows "\<exists>r. fe = [r] \<and> skillMdPath r = F @ [n, ''SKILL.md'']"
  using assms
  by (auto simp: scan_entry_def Let_def path_join_SKILL existsSync_def readFileSync_def
      split: sum.splits)

lemma find_skill_append:
  "find_skill xs ident = None \<Longrightarrow> find_skill (xs @ ys) ident = find_skill ys ident"
  by (induction xs) (auto simp: find_skill_def split: if_splits)

lemma find_skill_declared:
  "get_prop (metadata r) ''name'' = Str ident \<Longrightarrow> find_skill (r # rest) ident = Some r"
  by (simp add: find_skill_def)

lemma parsed_metadata_fields:
  "get_prop (parsed_metadata n d t m) ''name'' = Str n
   \<and> get_prop (parsed_metadata n d t m) ''description'' = Str d"
  by (simp add: parsed_metadata_def declared_metadata_def get_prop_def)

text \<open>After the document of a skill has been written under a configured root, the listing, if
  it does not throw, holds a record at that document.\<close>

lemma written_skill_listed:
  assumes plain: "plain_name n"
    and folder: "folder \<noteq> []" "''..'' \<notin> set (split_on CHR ''/'' folder)"
    and roots: "Some (JString folder) \<in> set roots"
    and dir: "lookup root (resolve folder @ [n]) = Some (Dir ds)"
    and doc_at: "lookup root (resolve folder @ [n, ''SKILL.md'']) = Some (File doc)"
    and parsed: "parseSkillMarkdown h doc = Some (DocMap md, body)"
    and tru: "truthy (get_prop md ''name'')" "truthy (get_prop md ''description'')"
    and listing: "scan_folders h root roots = Inr skills"
  shows "\<exists>r \<in> set skills. skillMdPath r = resolve folder @ [n, ''SKILL.md'']"
proof -
  let ?F = "resolve folder"
  from lookup_child_listed [OF dir] obtain es
    where es: "lookup root ?F = Some (Dir es)" and ent: "(n, Dir ds) \<in> set es" by blast
  have loc: "locate root folder = Some ?F"
    using folder es by (rule locate_lexical)
  from scan_folders_member [OF listing roots] obtain ff
    where ff: "scan_folder h root (Some (JString folder)) = Inr ff" and sub: "set ff \<subseteq> set skills"
    by blast
  from ff have ents: "scan_entries h root ?F (sort_key fst es) = Inr ff"
    by (simp add: loc readdirSync_def es)
  from ent have "(n, Dir ds) \<in> set (sort_key fst es)" by simp
  from scan_entries_member [OF ents this] obtain fe
    where fe: "scan_entry h root ?F (n, Dir ds) = Inr fe" and sub2: "set fe \<subseteq> set ff" by blast
  from scan_entry_document [OF fe path_join_plain [OF plain] doc_at parsed tru]
  obtain r where "fe = [r]" and "skillMdPath r = ?F @ [n, ''SKILL.md'']" by blast
  with sub sub2 show ?thesis by auto
qed

text \<open>
  Claim C8, as amended. When a call of \<open>createSkill\<close> has succeeded, a second call with the
  same name and the same folder argument succeeds as well: it uses the same directory and the
  same document path, and the document read there afterwards is the one of the second call.
  A later \<open>findSkill\<close> for the name returns the record at this document, with the description
  of the second call and its body, trimmed, under these conditions: the name is a plain
  directory name and the description is not empty; the lines written contain no \<open>---\<close> and the
  YAML parser reads them as the mapping they spell out; the folder is not empty, is written
  without \<open>..\<close> and is one of the configured roots; the listing of the skills does not throw;
  and no skill discovered before the re-created one has the name as its directory name or its
  declared name.
\<close>

theorem createSkill_twice_overwrites:
  assumes "createSkill h w n d c t m f = Inr (w1, s1)"
  shows "\<exists>w2 s2. createSkill h w1 n d2 c2 t2 m2 f = Inr (w2, s2)
      \<and> path s2 = path s1 \<and> skillMdPath s2 = skillMdPath s1
      \<and> readFileSync (files w2) (skillMdPath s2) = Inr (createSkill_frontmatter n d2 t2 m2 @ c2)
      \<and> (plain_name n \<and> d2 \<noteq> []
           \<and> search (metadata_lines n d2 t2 m2) ''---'' = None
           \<and> yaml_parse h (trim (metadata_lines n d2 t2 m2)) = Some (DocMap (declared_metadata n d2 t2 m2))
           \<and> chosen_folder h w f = Inr (JString folder) \<and> folder \<noteq> []
           \<and> ''..'' \<notin> set (split_on CHR ''/'' folder)
           \<and> getSkillsFolderPaths h w = Inr roots \<and> Some (JString folder) \<in> set roots
           \<and> getAllSkills_try h w2 = Inr skills
           \<and> find_skill (discovered_before (skillMdPath s2) skills) n = None
          \<longrightarrow> (\<exists>sk. findSkill h w2 n = Some sk \<and> skillMdPath sk = skillMdPath s2
                 \<and> get_prop (metadata sk) ''description'' = Str d2 \<and> content sk = trim c2))"
proof -
  let ?doc2 = "createSkill_frontmatter n d2 t2 m2 @ c2"
  from createSkill_success [OF assms] obtain folder' fs1 fs2 where
      fo: "(case f of None \<Rightarrow> getSkillsFolderPath h w
            | Some x \<Rightarrow> if x \<noteq> [] then Inr (JString x) else getSkillsFolderPath h w) = Inr (JString folder')"
    and pa: "path s1 = path_join (resolve folder') n"
    and mp: "skillMdPath s1 = path s1 @ [''SKILL.md'']"
    and wr: "writeFileSync fs1 (skillMdPath s1) (createSkill_frontmatter n d t m @ c) = Inr fs2"
    and w1: "w1 = w\<lparr>files := fs2\<rparr>"
    by blast
  from wr obtain es where "lookup fs2 (path s1) = Some (Dir es)"
    unfolding mp using writeFileSync_parent by blast
  then have mk: "mkdirSync fs2 (path s1) = Inr fs2" by (rule mkdirSync_existing)
  from wr have "lookup fs2 (skillMdPath s1) = Some (File (createSkill_frontmatter n d t m @ c))"
    by (rule writeFileSync_lookup)
  then obtain fs3 where wr2: "writeFileSync fs2 (skillMdPath s1) ?doc2 = Inr fs3"
    using writeFileSync_again by blast
  then have doc_at: "lookup fs3 (skillMdPath s1) = Some (File ?doc2)"
    by (rule writeFileSync_lookup)
  then have rd: "readFileSync fs3 (skillMdPath s1) = Inr ?doc2"
    by (simp add: readFileSync_def)
  from wr2 obtain ds where dir: "lookup fs3 (path s1) = Some (Dir ds)"
    unfolding mp using writeFileSync_parent by blast
  let ?s2 = "\<lparr>name = n, path = path s1,
       metadata = [(''name'', Str n), (''description'', Str d2),
                   (''allowedTools'', case t2 of None \<Rightarrow> Undefined | Some ts \<Rightarrow> Strs ts),
                   (''model'', case m2 of None \<Rightarrow> Undefined | Some x \<Rightarrow> Str x)],
       content = c2, supportingFiles = [], skillMdPath = skillMdPath s1\<rparr>"
  let ?w2 = "w1\<lparr>files := fs3\<rparr>"
  have fo1: "(case f of None \<Rightarrow> getSkillsFolderPath h w1
            | Some x \<Rightarrow> if x \<noteq> [] then Inr (JString x) else getSkillsFolderPath h w1) = Inr (JString folder')"
    using fo unfolding w1 getSkillsFolderPath_files .
  have c2: "createSkill h w1 n d2 c2 t2 m2 f = Inr (?w2, ?s2)"
    unfolding createSkill_def fo1
    using mk wr2 by (simp add: Let_def path_join_SKILL pa [symmetric] mp [symmetric] w1)
  have found: "\<exists>sk. findSkill h ?w2 n = Some sk \<and> skillMdPath sk = skillMdPath ?s2
                 \<and> get_prop (metadata sk) ''description'' = Str d2 \<and> content sk = trim c2"
    if plain: "plain_name n" and d2: "d2 \<noteq> []"
      and lines: "search (metadata_lines n d2 t2 m2) ''---'' = None"
      and yaml: "yaml_parse h (trim (metadata_lines n d2 t2 m2)) = Some (DocMap (declared_metadata n d2 t2 m2))"
      and chosen: "chosen_folder h w f = Inr (JString folder)"
      and folder: "folder \<noteq> []" "''..'' \<notin> set (split_on CHR ''/'' folder)"
      and roots: "getSkillsFolderPaths h w = Inr roots" "Some (JString folder) \<in> set roots"
      and listing: "getAllSkills_try h ?w2 = Inr skills"
      and before: "find_skill (discovered_before (skillMdPath ?s2) skills) n = None"
  proof -
    let ?p = "skillMdPath s1"
    from chosen fo have "folder' = folder" by (simp add: chosen_folder_def)
    with pa plain have ps: "path s1 = resolve folder @ [n]" by (simp add: path_join_plain)
    with mp have pm: "?p = resolve folder @ [n, ''SKILL.md'']" by simp
    have parsed: "parseSkillMarkdown h ?doc2 = Some (DocMap (parsed_metadata n d2 t2 m2), trim c2)"
      using lines yaml by (rule parse_written_document)
    from plain d2 have tr: "truthy (get_prop (parsed_metadata n d2 t2 m2) ''name'')"
        "truthy (get_prop (parsed_metadata n d2 t2 m2) ''description'')"
      by (simp_all add: parsed_metadata_fields plain_name_def)
    have "getSkillsFolderPaths h ?w2 = Inr roots"
      using roots(1) by (simp add: w1 getSkillsFolderPaths_def getSkillsFolders_def)
    with listing have sf: "scan_folders h fs3 roots = Inr skills"
      by (simp add: getAllSkills_try_def)
    from written_skill_listed [OF plain folder roots(2) dir [unfolded ps] doc_at [unfolded pm] parsed tr sf]
    obtain r where r: "r \<in> set skills" "skillMdPath r = ?p" unfolding pm by blast
    let ?P = "\<lambda>sk. skillMdPath sk \<noteq> ?p"
    from r have ne: "dropWhile ?P skills \<noteq> []" by (auto simp: dropWhile_eq_Nil_conv)
    then obtain r0 rest where dw: "dropWhile ?P skills = r0 # rest" by (cases "dropWhile ?P skills") auto
    then have r0p: "skillMdPath r0 = ?p" using hd_dropWhile [OF ne] by simp
    have "r0 \<in> set (dropWhile ?P skills)" using dw by simp
    then have "r0 \<in> set skills" by (rule set_dropWhileD)
    then have "r0 \<in> set (getAllSkills h ?w2)" using listing by (simp add: getAllSkills_def)
    then have "loaded_from h (files ?w2) r0" by (rule getAllSkills_loaded)
    then obtain doc where "readFileSync fs3 (skillMdPath r0) = Inr doc"
        and p: "parseSkillMarkdown h doc = Some (DocMap (metadata r0), content r0)"
      by (auto simp: loaded_from_def)
    with r0p rd have "doc = ?doc2" by simp
    with p parsed have md: "metadata r0 = parsed_metadata n d2 t2 m2" and co: "content r0 = trim c2"
      by simp_all
    have "skills = takeWhile ?P skills @ r0 # rest"
      using dw takeWhile_dropWhile_id [of ?P skills] by simp
    then have "find_skill skills n = find_skill (takeWhile ?P skills @ r0 # rest) n" by simp
    also have "\<dots> = find_skill (r0 # rest) n"
      using before by (intro find_skill_append) (simp add: discovered_before_def)
    also have "\<dots> = Some r0"
      by (rule find_skill_declared) (simp add: md parsed_metadata_fields)
    finally have "findSkill h ?w2 n = Some r0"
      using listing by (simp add: findSkill_def getAllSkills_def)
    with r0p md co show ?thesis by (auto simp: parsed_metadata_fields)
  qed
  show ?thesis
  proof (intro exI conjI)
    show "createSkill h w1 n d2 c2 t2 m2 f = Inr (?w2, ?s2)" by (rule c2)
    show "path ?s2 = path s1" by simp
    show "skillMdPath ?s2 = skillMdPath s1" by simp
    show "readFileSync (files ?w2) (skillMdPath ?s2) = Inr ?doc2"
      using rd by simp
    show "plain_name n \<and> d2 \<noteq> []
           \<and> search (metadata_lines n d2 t2 m2) ''---'' = None
           \<and> yaml_parse h (trim (metadata_lines n d2 t2 m2)) = Some (DocMap (declared_metadata n d2 t2 m2))
           \<and> chosen_folder h w f = Inr (JString folder) \<and> folder \<noteq> []
           \<and> ''..'' \<notin> set (split_on CHR ''/'' folder)
           \<and> getSkillsFolderPaths h w = Inr roots \<and> Some (JString folder) \<in> set roots
           \<and> getAllSkills_try h ?w2 = Inr skills
           \<and> find_skill (discovered_before (skillMdPath ?s2) skills) n = None
          \<longrightarrow> (\<exists>sk. findSkill h ?w2 n = Some sk \<and> skillMdPath sk = skillMdPath ?s2
                 \<and> get_prop (metadata sk) ''description'' = Str d2 \<and> content sk = trim c2)"
      using found by blast
  qed
qed

lemma create_first:
  "createSkill create_host later_world ''x'' ''d'' ''body'' None None None
     = Inr (created_beside ''d'' ''body'', created_record ''d'' ''body'')"
  by (simp add: create_defs eval_defs create_host_def later_world_def later_entry_def
      created_beside_def created_record_def skills_root_def)

lemma create_second:
  "createSkill create_host (created_beside ''d'' ''body'') ''x'' ''d2'' ''body2'' None None None
     = Inr (created_beside ''d2'' ''body2'', created_record ''d2'' ''body2'')"
  by (simp add: create_defs eval_defs create_host_def created_beside_def later_entry_def
      created_record_def skills_root_def)

lemma listing_created:
  "getAllSkills_try create_host (created_beside ''d2'' ''body2'') = Inr [listed_x, listed_z]"
  by (simp add: eval_defs create_host_def created_beside_def later_entry_def skills_root_def
      listed_x_def listed_z_def)

theorem createSkill_twice_overwrites_witness:
  "createSkill create_host later_world ''x'' ''d'' ''body'' None None None
     = Inr (created_beside ''d'' ''body'', created_record ''d'' ''body'')
   \<and> createSkill create_host (created_beside ''d'' ''body'') ''x'' ''d2'' ''body2'' None None None
     = Inr (created_beside ''d2'' ''body2'', created_record ''d2'' ''body2'')
   \<and> readFileSync (files (created_beside ''d2'' ''body2'')) (skillMdPath (created_record ''d2'' ''body2''))
     = Inr ''---\<newline>name: x\<newline>description: d2\<newline>---\<newline>\<newline>body2''
   \<and> (\<exists>sk. findSkill create_host (created_beside ''d2'' ''body2'') ''x'' = Some sk
         \<and> skillMdPath sk = skillMdPath (created_record ''d2'' ''body2'')
         \<and> get_prop (metadata sk) ''description'' = Str ''d2'' \<and> content sk = ''body2'')"
proof -
  have pl: "plain_name ''x''" by (simp add: plain_name_def)
  have l: "search (metadata_lines ''x'' ''d2'' None None) ''---'' = None"
    by (simp add: metadata_lines_def)
  have y: "yaml_parse create_host (trim (metadata_lines ''x'' ''d2'' None None))
             = Some (DocMap (declared_metadata ''x'' ''d2'' None None))"
    by (simp add: metadata_lines_def declared_metadata_def trim_def is_space_def create_host_def
        table_host_def table_parser_def)
  have ch: "chosen_folder create_host later_world None = Inr (JString ''/home/u/.claude/skills'')"
    by (simp add: chosen_folder_def getSkillsFolderPath_def getSkillsFolderPaths_def
        getSkillsFolders_def default_folders_def create_host_def table_host_def later_world_def)
  have nd: "''..'' \<notin> set (split_on CHR ''/'' ''/home/u/.claude/skills'')" by simp
  have ro: "getSkillsFolderPaths create_host later_world = Inr [Some (JString ''/home/u/.claude/skills'')]"
    by (simp add: getSkillsFolderPaths_def getSkillsFolders_def default_folders_def
        create_host_def table_host_def later_world_def)
  have be: "find_skill (discovered_before (skillMdPath (created_record ''d2'' ''body2'')) [listed_x, listed_z]) ''x'' = None"
    by (simp add: discovered_before_def created_record_def listed_x_def find_skill_def)
  have t: "trim ''body2'' = ''body2''" by (simp add: trim_def is_space_def)
  have f: "createSkill_frontmatter ''x'' ''d2'' None None @ ''body2''
             = ''---\<newline>name: x\<newline>description: d2\<newline>---\<newline>\<newline>body2''"
    by (simp add: createSkill_frontmatter_def)
  from createSkill_twice_overwrites [OF create_first, of "''d2''" "''body2''" None None
      "''/home/u/.claude/skills''" "[Some (JString ''/home/u/.claude/skills'')]" "[listed_x, listed_z]"]
  have "readFileSync (files (created_beside ''d2'' ''body2'')) (skillMdPath (created_record ''d2'' ''body2''))
          = Inr (createSkill_frontmatter ''x'' ''d2'' None None @ ''body2'')
        \<and> (\<exists>sk. findSkill create_host (created_beside ''d2'' ''body2'') ''x'' = Some sk
              \<and> skillMdPath sk = skillMdPath (created_record ''d2'' ''body2'')
              \<and> get_prop (metadata sk) ''description'' = Str ''d2'' \<and> content sk = trim ''body2'')"
    unfolding create_second using pl l y ch nd ro listing_created be by auto
  then show ?thesis
    using create_first create_second by (simp add: f t)
qed

end
